theory Spec2Isabelle
  imports Main "HOL-Library.Sublist"
begin

section \<open>JavaScript strings\<close>

text \<open>
  A JavaScript string is a sequence of UTF-16 code units. The regular expressions of
  \<^verbatim>\<open>App.tsx\<close> have no \<^verbatim>\<open>u\<close> flag, so they match code unit by code unit, and
  \<^verbatim>\<open>length\<close> counts code units. A code unit is modelled by its number; \<open>js\<close> turns
  an ASCII literal into such a string.
\<close>

type_synonym jschar = nat
type_synonym jsstring = "jschar list"

definition js :: "string \<Rightarrow> jsstring" where
  "js s = map of_char s"

text \<open>
  \<^verbatim>\<open>\s\<close> and \<^verbatim>\<open>String.prototype.trim\<close> use the same set: WhiteSpace and LineTerminator
  of ECMAScript (TAB, LF, VT, FF, CR, SP, NBSP, U+1680, U+2000..U+200A, U+2028, U+2029,
  U+202F, U+205F, U+3000, U+FEFF).
\<close>

definition isWhiteSpace :: "jschar \<Rightarrow> bool" where
  "isWhiteSpace c \<longleftrightarrow>
     (9 \<le> c \<and> c \<le> 13) \<or> c = 32 \<or> c = 160 \<or> c = 5760 \<or> (8192 \<le> c \<and> c \<le> 8202) \<or>
     c = 8232 \<or> c = 8233 \<or> c = 8239 \<or> c = 8287 \<or> c = 12288 \<or> c = 65279"

text \<open>\<^verbatim>\<open>\d\<close>: the ASCII digits.\<close>

definition isDigit :: "jschar \<Rightarrow> bool" where
  "isDigit c \<longleftrightarrow> 48 \<le> c \<and> c \<le> 57"

text \<open>\<^verbatim>\<open>.\<close> without the \<^verbatim>\<open>s\<close> flag: anything but LF, CR, U+2028, U+2029.\<close>

definition isDot :: "jschar \<Rightarrow> bool" where
  "isDot c \<longleftrightarrow> c \<noteq> 10 \<and> c \<noteq> 13 \<and> c \<noteq> 8232 \<and> c \<noteq> 8233"

text \<open>\<^verbatim>\<open>[.):\s]\<close>\<close>

definition isSep :: "jschar \<Rightarrow> bool" where
  "isSep c \<longleftrightarrow> c = 46 \<or> c = 41 \<or> c = 58 \<or> isWhiteSpace c"

text \<open>\<^verbatim>\<open>\*\<close>\<close>

definition isStar :: "jschar \<Rightarrow> bool" where
  "isStar c \<longleftrightarrow> c = 42"

text \<open>\<^verbatim>\<open>[-\u2013:]\<close>: hyphen, en dash and colon (the source has the en dash itself).\<close>

definition isDash :: "jschar \<Rightarrow> bool" where
  "isDash c \<longleftrightarrow> c = 45 \<or> c = 8211 \<or> c = 58"

text \<open>\<^verbatim>\<open>\?\<close>\<close>

definition isQMark :: "jschar \<Rightarrow> bool" where
  "isQMark c \<longleftrightarrow> c = 63"

definition trim :: "jsstring \<Rightarrow> jsstring" where
  "trim s = rev (dropWhile isWhiteSpace (rev (dropWhile isWhiteSpace s)))"

text \<open>\<^verbatim>\<open>text.split('\n')\<close>: the empty string gives one empty line.\<close>

fun split_nl :: "jsstring \<Rightarrow> jsstring list" where
  "split_nl [] = [[]]"
| "split_nl (c # cs) =
     (if c = 10 then [] # split_nl cs
      else (case split_nl cs of [] \<Rightarrow> [[c]] | l # ls \<Rightarrow> (c # l) # ls))"

text \<open>\<^verbatim>\<open>s.includes(sub)\<close>: \<open>sub\<close> occurs in \<open>s\<close> at some index.\<close>

fun includes_str :: "jsstring \<Rightarrow> jsstring \<Rightarrow> bool" where
  "includes_str [] sub = (sub = [])"
| "includes_str (c # cs) sub = (prefix sub (c # cs) \<or> includes_str cs sub)"

section \<open>Regular expressions: a backtracking matcher\<close>

text \<open>
  The fragment of ECMAScript regular expressions that \<^verbatim>\<open>App.tsx\<close> uses: one character of
  a class, a class under \<^verbatim>\<open>*\<close> (greedy) or \<^verbatim>\<open>*?\<close> (lazy), sequence, alternation (left
  first), capture groups, \<^verbatim>\<open>^\<close> and \<^verbatim>\<open>$\<close> (no \<^verbatim>\<open>m\<close> flag: start and end of input).
  \<^verbatim>\<open>x+\<close> is \<^verbatim>\<open>xx*\<close>, \<^verbatim>\<open>x+?\<close> is \<^verbatim>\<open>xx*?\<close> and \<^verbatim>\<open>x?\<close> is \<^verbatim>\<open>(?:x|)\<close>, with the same
  order of alternatives as the quantifiers have.
\<close>

datatype regex =
    Atom "jschar \<Rightarrow> bool"
  | Star "jschar \<Rightarrow> bool"
  | LazyStar "jschar \<Rightarrow> bool"
  | Seq regex regex
  | Alt regex regex
  | Empty
  | Group nat regex
  | Bol
  | Eol

definition Plus :: "(jschar \<Rightarrow> bool) \<Rightarrow> regex" where
  "Plus p = Seq (Atom p) (Star p)"

definition LazyPlus :: "(jschar \<Rightarrow> bool) \<Rightarrow> regex" where
  "LazyPlus p = Seq (Atom p) (LazyStar p)"

definition Opt :: "(jschar \<Rightarrow> bool) \<Rightarrow> regex" where
  "Opt p = Alt (Atom p) Empty"

fun seqs :: "regex list \<Rightarrow> regex" where
  "seqs [] = Empty"
| "seqs [r] = r"
| "seqs (r # rs) = Seq r (seqs rs)"

text \<open>
  The matcher works on a stack of what is still to match (the continuation): a regex, or
  the end of capture group \<open>n\<close> that was opened where the input was \<open>start\<close>. It returns
  the first match in backtracking order: the end position and the captures.
\<close>

datatype frame = Run regex | Close nat jsstring

fun rsize :: "regex \<Rightarrow> nat" where
  "rsize (Seq a b) = Suc (rsize a + rsize b)"
| "rsize (Alt a b) = Suc (rsize a + rsize b)"
| "rsize (Group n r) = Suc (Suc (rsize r))"
| "rsize _ = 1"

fun fsize :: "frame \<Rightarrow> nat" where
  "fsize (Run r) = rsize r"
| "fsize (Close n start) = 1"

type_synonym captures = "(nat \<times> jsstring) list"

function bt :: "frame list \<Rightarrow> nat \<Rightarrow> jsstring \<Rightarrow> captures \<Rightarrow> (nat \<times> captures) option" where
  "bt [] pos rest caps = Some (pos, caps)"
| "bt (Close n start # k) pos rest caps =
     bt k pos rest ((n, take (length start - length rest) start) # caps)"
| "bt (Run (Atom p) # k) pos rest caps =
     (case rest of [] \<Rightarrow> None
      | c # cs \<Rightarrow> if p c then bt k (Suc pos) cs caps else None)"
| "bt (Run (Star p) # k) pos rest caps =
     (case (case rest of [] \<Rightarrow> None
            | c # cs \<Rightarrow> if p c then bt (Run (Star p) # k) (Suc pos) cs caps else None) of
        Some r \<Rightarrow> Some r
      | None \<Rightarrow> bt k pos rest caps)"
| "bt (Run (LazyStar p) # k) pos rest caps =
     (case bt k pos rest caps of
        Some r \<Rightarrow> Some r
      | None \<Rightarrow> (case rest of [] \<Rightarrow> None
                 | c # cs \<Rightarrow> if p c then bt (Run (LazyStar p) # k) (Suc pos) cs caps else None))"
| "bt (Run (Seq a b) # k) pos rest caps = bt (Run a # Run b # k) pos rest caps"
| "bt (Run (Alt a b) # k) pos rest caps =
     (case bt (Run a # k) pos rest caps of
        Some r \<Rightarrow> Some r
      | None \<Rightarrow> bt (Run b # k) pos rest caps)"
| "bt (Run Empty # k) pos rest caps = bt k pos rest caps"
| "bt (Run (Group n r) # k) pos rest caps = bt (Run r # Close n rest # k) pos rest caps"
| "bt (Run Bol # k) pos rest caps = (if pos = 0 then bt k pos rest caps else None)"
| "bt (Run Eol # k) pos rest caps = (if rest = [] then bt k pos rest caps else None)"
  by pat_completeness auto
termination
  by (relation "inv_image (less_than <*lex*> less_than)
                  (\<lambda>(k, pos, rest, caps). (sum_list (map fsize k), length rest))") auto

record rmatch =
  index :: nat
  endIndex :: nat
  groups :: captures

text \<open>
  \<^verbatim>\<open>RegExp.prototype.exec\<close> without \<^verbatim>\<open>g\<close> or \<^verbatim>\<open>y\<close>: try to match at index 0, 1, ... up to
  the length of the input; the first index that matches wins.
\<close>

fun exec_from :: "regex \<Rightarrow> nat \<Rightarrow> jsstring \<Rightarrow> rmatch option" where
  "exec_from r pos rest =
     (case bt [Run r] pos rest [] of
        Some (e, caps) \<Rightarrow> Some \<lparr>index = pos, endIndex = e, groups = caps\<rparr>
      | None \<Rightarrow> (case rest of [] \<Rightarrow> None | c # cs \<Rightarrow> exec_from r (Suc pos) cs))"

definition match :: "jsstring \<Rightarrow> regex \<Rightarrow> rmatch option" where
  "match s r = exec_from r 0 s"

declare bt.simps [simp del] exec_from.simps [simp del]

text \<open>
  \<^verbatim>\<open>match[n]\<close>. A group that took no part in the match is \<^verbatim>\<open>undefined\<close> in JavaScript,
  and calling \<^verbatim>\<open>trim\<close> on it would throw. In both patterns below the two groups lie on
  every path through the pattern, so every match defines them (lemmas
  \<open>optionRe_groups\<close> and \<open>questionRe_groups\<close>) and the default is never taken.
\<close>

definition grp :: "rmatch \<Rightarrow> nat \<Rightarrow> jsstring" where
  "grp m n = (case map_of (groups m) n of Some s \<Rightarrow> s | None \<Rightarrow> [])"

text \<open>\<^verbatim>\<open>s.replace(r, '')\<close> for a regex without \<^verbatim>\<open>g\<close>: the first match is cut out.\<close>

definition replace_first :: "jsstring \<Rightarrow> regex \<Rightarrow> jsstring" where
  "replace_first s r =
     (case match s r of None \<Rightarrow> s | Some m \<Rightarrow> take (index m) s @ drop (endIndex m) s)"

text \<open>
  \<^verbatim>\<open>s.replace(/\*\*/g, '')\<close>: every occurrence of two asterisks, found from left to
  right without overlap, is cut out.
\<close>

fun replace_bold :: "jsstring \<Rightarrow> jsstring" where
  "replace_bold (a # b # cs) =
     (if a = 42 \<and> b = 42 then replace_bold cs else a # replace_bold (b # cs))"
| "replace_bold cs = cs"

section \<open>Structured-content extraction (\<^verbatim>\<open>App.tsx\<close>, lines 138 to 192)\<close>

record QuickOption =
  opt_id :: jsstring
  label :: jsstring
  opt_value :: jsstring

datatype answer = Yes | No

record QuestionAnswer =
  questionId :: jsstring
  questionText :: jsstring
  answer :: "answer option"

text \<open>\<^verbatim>\<open>/^\s*\*?\*?(\d+)[.):\s]+\*?\*?\s*(.+?)(?:\*?\*?\s*[-\u2013:]|$)/\<close>\<close>

definition optionRe :: regex where
  "optionRe = seqs
     [Bol, Star isWhiteSpace, Opt isStar, Opt isStar, Group 1 (Plus isDigit), Plus isSep,
      Opt isStar, Opt isStar, Star isWhiteSpace, Group 2 (LazyPlus isDot),
      Alt (seqs [Opt isStar, Opt isStar, Star isWhiteSpace, Atom isDash]) Eol]"

text \<open>\<^verbatim>\<open>/\s*[-\u2013:]\s*$/\<close>\<close>

definition trailerRe :: regex where
  "trailerRe = seqs [Star isWhiteSpace, Atom isDash, Star isWhiteSpace, Eol]"

text \<open>\<^verbatim>\<open>/^\s*\*?\*?(\d+)[.):\s]+\*?\*?\s*(.+\?)\s*$/\<close>\<close>

definition questionRe :: regex where
  "questionRe = seqs
     [Bol, Star isWhiteSpace, Opt isStar, Opt isStar, Group 1 (Plus isDigit), Plus isSep,
      Opt isStar, Opt isStar, Star isWhiteSpace, Group 2 (Seq (Plus isDot) (Atom isQMark)),
      Star isWhiteSpace, Eol]"

text \<open>
  Lines 150 and 151: \<^verbatim>\<open>label.replace(/\*\*/g, '').replace(/\s*[-\u2013:]\s*$/, '').trim()\<close>.
\<close>

definition cleanLabel :: "jsstring \<Rightarrow> jsstring" where
  "cleanLabel label0 = trim (replace_first (replace_bold label0) trailerRe)"

text \<open>The body of the loop of \<open>parseOptionsFromText\<close>: one line, pushed or not.\<close>

definition parseOptions_line :: "QuickOption list \<Rightarrow> jsstring \<Rightarrow> QuickOption list" where
  "parseOptions_line options line =
     (case match line optionRe of
        None \<Rightarrow> options
      | Some m \<Rightarrow>
          let num = grp m 1;
              label0 = trim (grp m 2);
              label1 = cleanLabel label0
          in if label1 \<noteq> [] \<and> length label1 > 2 \<and> length label1 < 100
             then options @ [\<lparr>opt_id = js ''opt-'' @ num, label = label1,
                              opt_value = num @ js ''. '' @ label1\<rparr>]
             else options)"

definition parseOptionsFromText :: "jsstring \<Rightarrow> QuickOption list" where
  "parseOptionsFromText text = take 6 (foldl parseOptions_line [] (split_nl text))"

text \<open>The body of the loop of \<open>parseMultiQuestions\<close>.\<close>

definition parseQuestions_line :: "QuestionAnswer list \<Rightarrow> jsstring \<Rightarrow> QuestionAnswer list" where
  "parseQuestions_line questions line =
     (case match line questionRe of
        None \<Rightarrow> questions
      | Some m \<Rightarrow>
          let num = grp m 1;
              questionText0 = trim (grp m 2);
              questionText1 = trim (replace_bold questionText0)
          in if length questionText1 > 5
             then questions @ [\<lparr>questionId = js ''q-'' @ num, questionText = questionText1,
                                answer = None\<rparr>]
             else questions)"

definition parseMultiQuestions :: "jsstring \<Rightarrow> QuestionAnswer list" where
  "parseMultiQuestions text = take 10 (foldl parseQuestions_line [] (split_nl text))"

definition hasMultipleQuestions :: "jsstring \<Rightarrow> bool" where
  "hasMultipleQuestions text = (let questions = parseMultiQuestions text in length questions \<ge> 2)"

text \<open>
  The capture groups that lie on every path through a pattern; used only to show that
  \<^verbatim>\<open>match[1]\<close> and \<^verbatim>\<open>match[2]\<close> are defined after a match.
\<close>

fun mand :: "regex \<Rightarrow> nat set" where
  "mand (Seq a b) = mand a \<union> mand b"
| "mand (Alt a b) = mand a \<inter> mand b"
| "mand (Group n r) = insert n (mand r)"
| "mand _ = {}"

fun fmand :: "frame \<Rightarrow> nat set" where
  "fmand (Run r) = mand r"
| "fmand (Close n start) = {n}"

section \<open>Messages and component state (\<^verbatim>\<open>types.ts\<close>; \<^verbatim>\<open>App.tsx\<close>, lines 50 to 74)\<close>

record WebSource =
  uri :: "jsstring option"
  title :: "jsstring option"

record GroundingChunk =
  web :: "WebSource option"

datatype role = User | Model

text \<open>
  The optional fields \<^verbatim>\<open>groundingChunks?\<close>, \<^verbatim>\<open>isStreaming?\<close> and \<^verbatim>\<open>hasError?\<close> are
  \<open>None\<close> when absent. \<^verbatim>\<open>!msg.isStreaming\<close> holds for an absent field and for \<^verbatim>\<open>false\<close>.
\<close>

record ChatMessage =
  msg_id :: jsstring
  role :: role
  msg_text :: jsstring
  groundingChunks :: "GroundingChunk list option"
  isStreaming :: "bool option"
  hasError :: "bool option"

definition truthy :: "bool option \<Rightarrow> bool" where
  "truthy b = (b = Some True)"

text \<open>
  The state of the component: the \<^verbatim>\<open>useState\<close> cells that the handlers below read or
  write, the two refs \<^verbatim>\<open>isMountedRef.current\<close> and \<^verbatim>\<open>messageCounterRef.current\<close>, and
  \<open>requests\<close>, the messages handed to \<^verbatim>\<open>sendMessageStream\<close> so far (the calls to the
  remote service, which the source does not record).

  The values that \<^verbatim>\<open>useState\<close> returns are constants of one render of the component: a
  handler reads the state of the render that created it, and its setters act on the
  current state (\<^verbatim>\<open>setMessages\<close> with a function of the current value). A handler that an
  event calls directly belongs to the latest render, so what it reads is the current
  state: \<open>handleSend\<close> and \<open>handleRetry\<close> take one state. \<open>handleSendWithText\<close> is
  called by the memoized \<open>handleSubmitMultiAnswers\<close> and, 50 ms after the click, by the
  timer of \<open>handleQuickReplyClick\<close>; the render whose values it reads can be an earlier
  one, so it takes the state of its render and the current state.
\<close>

record AppState =
  inputText :: jsstring
  messages :: "ChatMessage list"
  isProcessing :: bool
  hasStarted :: bool
  error :: "jsstring option"
  lastMessageTime :: int
  isInitializing :: bool
  isMounted :: bool
  messageCounter :: nat
  requests :: "jsstring list"

definition initialState :: AppState where
  "initialState = \<lparr>inputText = [], messages = [], isProcessing = False, hasStarted = False,
     error = None, lastMessageTime = 0, isInitializing = False, isMounted = True,
     messageCounter = 0, requests = []\<rparr>"

definition MAX_INPUT_LENGTH :: nat where
  "MAX_INPUT_LENGTH = 2000"

definition MIN_MESSAGE_INTERVAL :: int where
  "MIN_MESSAGE_INTERVAL = 1000"

text \<open>
  Decimal digits of a number in a template literal. (A JavaScript number prints this way
  below \<open>10^21\<close>; the counter and \<^verbatim>\<open>Date.now()\<close> are far below.)
\<close>

fun show_nat :: "nat \<Rightarrow> jsstring" where
  "show_nat n = (if n < 10 then [48 + n] else show_nat (n div 10) @ [48 + n mod 10])"

declare show_nat.simps [simp del]

definition show_int :: "int \<Rightarrow> jsstring" where
  "show_int i = (if i < 0 then 45 # show_nat (nat (- i)) else show_nat (nat i))"

section \<open>Quick replies and multi-question mode (\<^verbatim>\<open>App.tsx\<close>, lines 254 to 292, 873)\<close>

text \<open>
  \<^verbatim>\<open>String.prototype.toLowerCase\<close> follows the Unicode case mapping, which is not part of
  the repository: \<open>getQuickReplies\<close> takes it as its first argument.
  \<open>toLowerCaseASCII\<close> is that function on strings of ASCII code units.
\<close>

definition toLowerCaseASCII :: "jsstring \<Rightarrow> jsstring" where
  "toLowerCaseASCII s = map (\<lambda>c. if 65 \<le> c \<and> c \<le> 90 then c + 32 else c) s"

definition getQuickReplies ::
    "(jsstring \<Rightarrow> jsstring) \<Rightarrow> ChatMessage list \<Rightarrow> bool \<Rightarrow> QuickOption list" where
  "getQuickReplies toLowerCase msgs processing =
     (if msgs = [] \<or> processing then []
      else
        let lastMsg = last msgs in
        if role lastMsg \<noteq> Model \<or> truthy (isStreaming lastMsg) then []
        else
          let text = toLowerCase (msg_text lastMsg);
              replies0 = [];
              replies1 =
                (if includes_str text (js ''?'') \<and>
                    (includes_str text (js ''do you'') \<or>
                     includes_str text (js ''does it'') \<or>
                     includes_str text (js ''is it'') \<or>
                     includes_str text (js ''are you'') \<or>
                     includes_str text (js ''can you'') \<or>
                     includes_str text (js ''would you'') \<or>
                     includes_str text (js ''have you''))
                 then replies0 @
                      [\<lparr>opt_id = js ''yes'', label = js ''Yes'', opt_value = js ''Yes''\<rparr>,
                       \<lparr>opt_id = js ''no'', label = js ''No'', opt_value = js ''No''\<rparr>]
                 else replies0);
              replies2 =
                (if includes_str text (js ''?'')
                 then replies1 @
                      [\<lparr>opt_id = js ''more'', label = js ''Tell me more'',
                        opt_value = js ''Can you tell me more about that?''\<rparr>]
                 else replies1);
              replies3 =
                (if includes_str text (js ''form'') \<or> includes_str text (js ''application'') \<or>
                    includes_str text (js ''grant'')
                 then replies2 @
                      [\<lparr>opt_id = js ''help'', label = js ''I need help understanding'',
                        opt_value =
                          js ''I need help understanding this. Can you explain it in simpler terms?''\<rparr>]
                 else replies2)
          in take 4 replies3)"

text \<open>Line 873, in the rendering of one assistant message.\<close>

definition hasMultiQ :: "ChatMessage \<Rightarrow> bool" where
  "hasMultiQ msg =
     (let multiQuestions = parseMultiQuestions (msg_text msg)
      in length multiQuestions \<ge> 2 \<and> \<not> truthy (isStreaming msg) \<and> \<not> truthy (hasError msg))"

section \<open>The exchange controller (\<^verbatim>\<open>App.tsx\<close>, lines 317 to 543; \<^verbatim>\<open>geminiService.ts\<close>, lines 79 to 110)\<close>

text \<open>
  The local variables of one run of \<open>handleSend\<close> or \<open>handleSendWithText\<close> that live
  across the \<^verbatim>\<open>await\<close>: the id of the placeholder and the two accumulators.
\<close>

record Exchange =
  aiMsgId :: jsstring
  accumulatedText :: jsstring
  accumulatedGrounding :: "GroundingChunk list"

text \<open>
  The synchronous part of \<open>handleSendWithText\<close> (lines 318 to 351), with \<^verbatim>\<open>Date.now()\<close>
  as the argument \<open>now\<close>. \<^verbatim>\<open>isProcessing\<close> and \<^verbatim>\<open>lastMessageTime\<close> are read from
  \<open>render\<close>, the state of the render that created the function; the setters and the
  ref \<^verbatim>\<open>messageCounterRef\<close> act on the current state \<open>s\<close>. The result \<open>None\<close> is a
  \<^verbatim>\<open>return\<close> before anything was done; \<open>Some x\<close> is the call of \<^verbatim>\<open>sendMessageStream\<close>
  that the handler then awaits.
\<close>

definition handleSendWithText ::
    "AppState \<Rightarrow> AppState \<Rightarrow> jsstring \<Rightarrow> int \<Rightarrow> AppState \<times> Exchange option" where
  "handleSendWithText render s text now =
     (if trim text = [] \<or> isProcessing render then (s, None)
      else if now - lastMessageTime render < MIN_MESSAGE_INTERVAL then (s, None)
      else
        let msgId = messageCounter s;
            userMsgId = js ''user-'' @ show_nat msgId @ js ''-'' @ show_int now;
            aiId = js ''ai-'' @ show_nat msgId @ js ''-'' @ show_int now;
            userMessage = \<lparr>msg_id = userMsgId, role = User, msg_text = text,
              groundingChunks = None, isStreaming = None, hasError = None\<rparr>;
            aiMessagePlaceholder = \<lparr>msg_id = aiId, role = Model, msg_text = [],
              groundingChunks = None, isStreaming = Some True, hasError = None\<rparr>
        in (s\<lparr>lastMessageTime := now, messageCounter := Suc msgId,
               messages := (messages s @ [userMessage]) @ [aiMessagePlaceholder],
               inputText := [], isProcessing := True, error := None,
               requests := requests s @ [text]\<rparr>,
            Some \<lparr>aiMsgId = aiId, accumulatedText = [], accumulatedGrounding = []\<rparr>))"

text \<open>The synchronous part of \<open>handleSend\<close> (lines 426 to 467): the text is the input.\<close>

definition handleSend :: "AppState \<Rightarrow> int \<Rightarrow> AppState \<times> Exchange option" where
  "handleSend s now =
     (if trim (inputText s) = [] \<or> isProcessing s then (s, None)
      else if now - lastMessageTime s < MIN_MESSAGE_INTERVAL then (s, None)
      else
        let msgId = messageCounter s;
            userMsgId = js ''user-'' @ show_nat msgId @ js ''-'' @ show_int now;
            aiId = js ''ai-'' @ show_nat msgId @ js ''-'' @ show_int now;
            userText = inputText s;
            userMessage = \<lparr>msg_id = userMsgId, role = User, msg_text = userText,
              groundingChunks = None, isStreaming = None, hasError = None\<rparr>;
            aiMessagePlaceholder = \<lparr>msg_id = aiId, role = Model, msg_text = [],
              groundingChunks = None, isStreaming = Some True, hasError = None\<rparr>
        in (s\<lparr>lastMessageTime := now, messageCounter := Suc msgId,
               messages := (messages s @ [userMessage]) @ [aiMessagePlaceholder],
               inputText := [], isProcessing := True, error := None,
               requests := requests s @ [userText]\<rparr>,
            Some \<lparr>aiMsgId = aiId, accumulatedText = [], accumulatedGrounding = []\<rparr>))"

text \<open>
  The chunk callback (lines 357 to 370 and 473 to 487, the same text twice). An absent
  second argument is \<open>None\<close>; an array, also an empty one, is truthy.
\<close>

definition onChunk ::
    "AppState \<Rightarrow> Exchange \<Rightarrow> jsstring \<Rightarrow> GroundingChunk list option \<Rightarrow> AppState \<times> Exchange" where
  "onChunk s x chunk chunks =
     (if \<not> isMounted s then (s, x)
      else
        let x' = x\<lparr>accumulatedText := accumulatedText x @ chunk,
                   accumulatedGrounding :=
                     (case chunks of None \<Rightarrow> accumulatedGrounding x
                      | Some cs \<Rightarrow> accumulatedGrounding x @ cs)\<rparr>
        in (s\<lparr>messages :=
                 map (\<lambda>msg. if msg_id msg = aiMsgId x
                            then msg\<lparr>msg_text := accumulatedText x',
                                     groundingChunks := Some (accumulatedGrounding x')\<rparr>
                            else msg) (messages s)\<rparr>, x'))"

text \<open>
  What happens while the handler awaits \<^verbatim>\<open>sendMessageStream\<close>: the remote stream delivers
  chunks, and the component may be torn down (the cleanup of lines 69 to 74 clears
  \<^verbatim>\<open>isMountedRef.current\<close>). The stream then ends, or throws an error whose \<^verbatim>\<open>message\<close>
  may be absent.
\<close>

datatype stream_event = Chunk jsstring "GroundingChunk list option" | Unmount

datatype stream_result = StreamEnd | StreamThrows "jsstring option"

definition deliver :: "AppState \<times> Exchange \<Rightarrow> stream_event \<Rightarrow> AppState \<times> Exchange" where
  "deliver sx ev =
     (case ev of
        Chunk chunk chunks \<Rightarrow> onChunk (fst sx) (snd sx) chunk chunks
      | Unmount \<Rightarrow> ((fst sx)\<lparr>isMounted := False\<rparr>, snd sx))"

text \<open>
  \<open>sendMessageStream\<close> of \<^verbatim>\<open>geminiService.ts\<close>: the loop calls the callback for every chunk
  in turn; an error whose message contains \<^verbatim>\<open>429\<close> is replaced, any other is thrown
  again. The second component is \<open>None\<close> for a normal return and the message of the
  error thrown otherwise. (The two errors thrown before the \<^verbatim>\<open>try\<close> block, for a missing
  key or session, have fixed messages without \<^verbatim>\<open>429\<close>: they are \<open>StreamThrows\<close> with
  no event.)
\<close>

definition sendMessageStream ::
    "stream_event list \<Rightarrow> stream_result \<Rightarrow> AppState \<times> Exchange \<Rightarrow>
     (AppState \<times> Exchange) \<times> jsstring option option" where
  "sendMessageStream events result sx =
     (foldl deliver sx events,
      case result of
        StreamEnd \<Rightarrow> None
      | StreamThrows message \<Rightarrow>
          Some (case message of
                  None \<Rightarrow> None
                | Some m \<Rightarrow>
                    if includes_str m (js ''429'')
                    then Some (js ''I am thinking very hard right now. Please wait a moment and try again.'')
                    else Some m))"

text \<open>
  The rest of the \<^verbatim>\<open>try\<close> block after the \<^verbatim>\<open>await\<close> (lines 372 to 378) and the
  \<^verbatim>\<open>catch\<close> block (lines 380 to 396). \<^verbatim>\<open>a || b\<close> on strings takes \<open>b\<close> when \<open>a\<close> is
  absent or empty.
\<close>

definition afterStream :: "AppState \<Rightarrow> Exchange \<Rightarrow> jsstring option option \<Rightarrow> AppState" where
  "afterStream s x thrown =
     (case thrown of
        None \<Rightarrow>
          if \<not> isMounted s then s
          else s\<lparr>messages :=
                   map (\<lambda>msg. if msg_id msg = aiMsgId x then msg\<lparr>isStreaming := Some False\<rparr>
                              else msg) (messages s)\<rparr>
      | Some err_message \<Rightarrow>
          if \<not> isMounted s then s
          else
            let errorMessage =
                  (case err_message of
                     None \<Rightarrow> js ''I had trouble connecting. Please try saying that again.''
                   | Some m \<Rightarrow>
                       if m = [] then js ''I had trouble connecting. Please try saying that again.''
                       else m)
            in s\<lparr>error := Some errorMessage,
                  messages :=
                    map (\<lambda>msg. if msg_id msg = aiMsgId x
                               then msg\<lparr>isStreaming := Some False, hasError := Some True,
                                        msg_text :=
                                          (if msg_text msg = []
                                           then js ''Sorry, I encountered an error. Please try again.''
                                           else msg_text msg)\<rparr>
                               else msg) (messages s)\<rparr>)"

text \<open>The \<^verbatim>\<open>finally\<close> block (lines 397 to 402); it also runs after an early \<^verbatim>\<open>return\<close>.\<close>

definition finallyBlock :: "AppState \<Rightarrow> AppState" where
  "finallyBlock s = (if isMounted s then s\<lparr>isProcessing := False\<rparr> else s)"

text \<open>One exchange from the call of \<^verbatim>\<open>sendMessageStream\<close> to the end of the handler.\<close>

definition runExchange ::
    "AppState \<Rightarrow> Exchange \<Rightarrow> stream_event list \<Rightarrow> stream_result \<Rightarrow> AppState" where
  "runExchange s x events result =
     (case sendMessageStream events result (s, x) of
        ((s', x'), thrown) \<Rightarrow> finallyBlock (afterStream s' x' thrown))"

text \<open>\<^verbatim>\<open>Array.prototype.findIndex\<close>: the first index, \<open>None\<close> for \<^verbatim>\<open>-1\<close>.\<close>

fun findIndex :: "('a \<Rightarrow> bool) \<Rightarrow> 'a list \<Rightarrow> nat option" where
  "findIndex P [] = None"
| "findIndex P (x # xs) =
     (if P x then Some 0 else (case findIndex P xs of None \<Rightarrow> None | Some i \<Rightarrow> Some (Suc i)))"

text \<open>\<open>handleRetry\<close> (lines 525 to 536).\<close>

definition handleRetry :: "AppState \<Rightarrow> jsstring \<Rightarrow> AppState" where
  "handleRetry s messageId =
     (case findIndex (\<lambda>m. msg_id m = messageId) (messages s) of
        None \<Rightarrow> s
      | Some msgIndex \<Rightarrow>
          let msg = messages s ! msgIndex in
          if role msg = User
          then s\<lparr>messages := take msgIndex (messages s), inputText := msg_text msg,
                 error := None\<rparr>
          else s)"

text \<open>\<open>handleInputChange\<close> (lines 538 to 543).\<close>

definition handleInputChange :: "AppState \<Rightarrow> jsstring \<Rightarrow> AppState" where
  "handleInputChange s v = (if length v \<le> MAX_INPUT_LENGTH then s\<lparr>inputText := v\<rparr> else s)"

text \<open>
  \<open>handleQuickReplyClick\<close> (lines 307 to 315) sets the input and starts a timer of 50 ms
  whose callback calls \<open>handleSendWithText\<close>. The callback is a closure of the render in
  which the button was clicked: \<open>PendingSend\<close> is the timer, with the state of that
  render and the text. (With \<^verbatim>\<open>useCallback\<close> the closure may be of an earlier render with
  the same \<^verbatim>\<open>isProcessing\<close>; \<^verbatim>\<open>lastMessageTime\<close> changes only in a render in which
  \<^verbatim>\<open>isProcessing\<close> changes too, so both renders give \<open>handleSendWithText\<close> the same
  values.) \<open>firePending\<close> is the callback running at time \<open>now\<close> in the state \<open>s\<close>.
\<close>

record PendingSend =
  closure :: AppState
  sendText :: jsstring

definition handleQuickReplyClick :: "AppState \<Rightarrow> QuickOption \<Rightarrow> AppState \<times> PendingSend option" where
  "handleQuickReplyClick s option =
     (if isProcessing s then (s, None)
      else (s\<lparr>inputText := opt_value option\<rparr>,
            Some \<lparr>closure = s, sendText = opt_value option\<rparr>))"

definition firePending ::
    "PendingSend option \<Rightarrow> AppState \<Rightarrow> int \<Rightarrow> AppState \<times> Exchange option" where
  "firePending p s now =
     (case p of
        None \<Rightarrow> (s, None)
      | Some t \<Rightarrow> handleSendWithText (closure t) s (sendText t) now)"

text \<open>
  Two clicks on the same quick reply, and then the two timers: the first fires at time
  \<open>t1\<close>, the second at \<open>t2\<close>. The result is the outcome of each of the two calls of
  \<open>handleSendWithText\<close>.
\<close>

definition doubleClick ::
    "AppState \<Rightarrow> QuickOption \<Rightarrow> int \<Rightarrow> int \<Rightarrow>
     (AppState \<times> Exchange option) \<times> (AppState \<times> Exchange option)" where
  "doubleClick s option t1 t2 =
     (case handleQuickReplyClick s option of
        (sa, p1) \<Rightarrow>
          (case handleQuickReplyClick sa option of
             (sb, p2) \<Rightarrow>
               (firePending p1 sb t1, firePending p2 (fst (firePending p1 sb t1)) t2)))"

text \<open>
  One stream fragment is the pair that the callback receives; a run of fragments with no
  teardown in between is the event list \<open>fragment_events\<close>.
\<close>

type_synonym fragment = "jsstring \<times> GroundingChunk list option"

definition fragment_events :: "fragment list \<Rightarrow> stream_event list" where
  "fragment_events frags = map (\<lambda>(chunk, chunks). Chunk chunk chunks) frags"

definition batch :: "GroundingChunk list option \<Rightarrow> GroundingChunk list" where
  "batch chunks = (case chunks of None \<Rightarrow> [] | Some cs \<Rightarrow> cs)"

section \<open>Example states\<close>

text \<open>
  A conversation as the handlers build it: the first message \<^verbatim>\<open>hello\<close> sent at time
  5000, and its exchange in flight (\<open>exampleSent\<close>), failed before any text
  (\<open>exampleFailed\<close>), or answered and followed by a second exchange (\<open>exampleTwo\<close>).
\<close>

definition exampleStart :: AppState where
  "exampleStart = initialState\<lparr>inputText := js ''hello'', hasStarted := True\<rparr>"

definition exampleUserMsg :: ChatMessage where
  "exampleUserMsg = \<lparr>msg_id = js ''user-0-5000'', role = User, msg_text = js ''hello'',
     groundingChunks = None, isStreaming = None, hasError = None\<rparr>"

definition examplePlaceholder :: ChatMessage where
  "examplePlaceholder = \<lparr>msg_id = js ''ai-0-5000'', role = Model, msg_text = [],
     groundingChunks = None, isStreaming = Some True, hasError = None\<rparr>"

definition exampleExchange :: Exchange where
  "exampleExchange =
     \<lparr>aiMsgId = js ''ai-0-5000'', accumulatedText = [], accumulatedGrounding = []\<rparr>"

definition exampleSent :: AppState where
  "exampleSent = \<lparr>inputText = [], messages = [exampleUserMsg, examplePlaceholder],
     isProcessing = True, hasStarted = True, error = None, lastMessageTime = 5000,
     isInitializing = False, isMounted = True, messageCounter = 1, requests = [js ''hello'']\<rparr>"

definition exampleErrorMsg :: ChatMessage where
  "exampleErrorMsg = \<lparr>msg_id = js ''ai-0-5000'', role = Model,
     msg_text = js ''Sorry, I encountered an error. Please try again.'',
     groundingChunks = None, isStreaming = Some False, hasError = Some True\<rparr>"

definition exampleFailed :: AppState where
  "exampleFailed = \<lparr>inputText = [], messages = [exampleUserMsg, exampleErrorMsg],
     isProcessing = False, hasStarted = True,
     error = Some (js ''I had trouble connecting. Please try saying that again.''),
     lastMessageTime = 5000, isInitializing = False, isMounted = True, messageCounter = 1,
     requests = [js ''hello'']\<rparr>"

definition exampleAnswer :: ChatMessage where
  "exampleAnswer = \<lparr>msg_id = js ''ai-0-5000'', role = Model, msg_text = js ''Hi there'',
     groundingChunks = Some [], isStreaming = Some False, hasError = None\<rparr>"

definition exampleUserMsg2 :: ChatMessage where
  "exampleUserMsg2 = \<lparr>msg_id = js ''user-1-9000'', role = User, msg_text = js ''again'',
     groundingChunks = None, isStreaming = None, hasError = None\<rparr>"

definition exampleErrorMsg2 :: ChatMessage where
  "exampleErrorMsg2 = \<lparr>msg_id = js ''ai-1-9000'', role = Model, msg_text = js ''Let me'',
     groundingChunks = Some [], isStreaming = Some False, hasError = Some True\<rparr>"

definition exampleTwo :: AppState where
  "exampleTwo = \<lparr>inputText = js ''draft'',
     messages = [exampleUserMsg, exampleAnswer, exampleUserMsg2, exampleErrorMsg2],
     isProcessing = False, hasStarted = True, error = Some (js ''network down''),
     lastMessageTime = 9000, isInitializing = False, isMounted = True, messageCounter = 2,
     requests = [js ''hello'', js ''again'']\<rparr>"

definition exampleQuestion :: ChatMessage where
  "exampleQuestion = \<lparr>msg_id = js ''ai-0-5000'', role = Model,
     msg_text = js ''Do you need help with a Grant form?'',
     groundingChunks = Some [], isStreaming = Some False, hasError = None\<rparr>"

definition exampleSource :: GroundingChunk where
  "exampleSource = \<lparr>web = Some \<lparr>uri = Some (js ''https://a.example''), title = Some (js ''A'')\<rparr>\<rparr>"

definition exampleFragments :: "fragment list" where
  "exampleFragments =
     [(js ''Hi'', None), (js '' there'', Some [exampleSource]), (js ''!'', Some [exampleSource])]"

text \<open>
  The first exchange answered by a question (\<open>exampleReady\<close>), and the states after a
  first and a second submission of the quick reply \<^verbatim>\<open>Yes\<close> at the times 20050 and 20060.
\<close>

definition exampleReady :: AppState where
  "exampleReady = \<lparr>inputText = [], messages = [exampleUserMsg, exampleQuestion],
     isProcessing = False, hasStarted = True, error = None, lastMessageTime = 5000,
     isInitializing = False, isMounted = True, messageCounter = 1, requests = [js ''hello'']\<rparr>"

definition yesOption :: QuickOption where
  "yesOption = \<lparr>opt_id = js ''yes'', label = js ''Yes'', opt_value = js ''Yes''\<rparr>"

definition exampleFirstSent :: AppState where
  "exampleFirstSent = \<lparr>inputText = [],
     messages = [exampleUserMsg, exampleQuestion,
       \<lparr>msg_id = js ''user-1-20050'', role = User, msg_text = js ''Yes'',
         groundingChunks = None, isStreaming = None, hasError = None\<rparr>,
       \<lparr>msg_id = js ''ai-1-20050'', role = Model, msg_text = [],
         groundingChunks = None, isStreaming = Some True, hasError = None\<rparr>],
     isProcessing = True, hasStarted = True, error = None, lastMessageTime = 20050,
     isInitializing = False, isMounted = True, messageCounter = 2,
     requests = [js ''hello'', js ''Yes'']\<rparr>"

definition exampleSecondSent :: AppState where
  "exampleSecondSent = \<lparr>inputText = [],
     messages = [exampleUserMsg, exampleQuestion,
       \<lparr>msg_id = js ''user-1-20050'', role = User, msg_text = js ''Yes'',
         groundingChunks = None, isStreaming = None, hasError = None\<rparr>,
       \<lparr>msg_id = js ''ai-1-20050'', role = Model, msg_text = [],
         groundingChunks = None, isStreaming = Some True, hasError = None\<rparr>,
       \<lparr>msg_id = js ''user-2-20060'', role = User, msg_text = js ''Yes'',
         groundingChunks = None, isStreaming = None, hasError = None\<rparr>,
       \<lparr>msg_id = js ''ai-2-20060'', role = Model, msg_text = [],
         groundingChunks = None, isStreaming = Some True, hasError = None\<rparr>],
     isProcessing = True, hasStarted = True, error = None, lastMessageTime = 20060,
     isInitializing = False, isMounted = True, messageCounter = 3,
     requests = [js ''hello'', js ''Yes'', js ''Yes'']\<rparr>"

section \<open>Evaluation and helper lemmas\<close>

lemmas class_defs = isWhiteSpace_def isDigit_def isDot_def isSep_def isStar_def isDash_def
  isQMark_def

lemmas regex_defs = match_def exec_from.simps bt.simps Plus_def LazyPlus_def Opt_def
  optionRe_def trailerRe_def questionRe_def

lemmas extract_defs = parseOptionsFromText_def parseOptions_line_def cleanLabel_def
  parseMultiQuestions_def parseQuestions_line_def grp_def replace_first_def trim_def js_def
  Let_def

lemmas example_defs = exampleStart_def exampleUserMsg_def examplePlaceholder_def
  exampleExchange_def exampleSent_def exampleErrorMsg_def exampleFailed_def exampleAnswer_def
  exampleUserMsg2_def exampleErrorMsg2_def exampleTwo_def exampleQuestion_def initialState_def

subsection \<open>The matcher and the extractors\<close>

text \<open>
  A match defines every capture group that lies on all paths through the pattern, so
  \<^verbatim>\<open>match[1]\<close> and \<^verbatim>\<open>match[2]\<close> are strings after a match of either pattern.
\<close>

lemma bt_groups:
  "bt k pos rest caps = Some (e, caps') \<Longrightarrow>
   (\<Union>f \<in> set k. fmand f) \<union> fst ` set caps \<subseteq> fst ` set caps'"
proof (induction k pos rest caps rule: bt.induct)
  case (1 pos rest caps)
  then show ?case by (auto simp: bt.simps(1))
next
  case (2 n start k pos rest caps)
  then show ?case by (auto simp: bt.simps(2) [of n start k pos rest caps])
next
  case (3 p k pos rest caps)
  then show ?case
    by (auto simp: bt.simps(3) [of p k pos rest caps] split: list.splits if_splits)
next
  case (4 p k pos rest caps)
  then show ?case
    by (auto simp: bt.simps(4) [of p k pos rest caps]
        split: list.splits if_splits option.splits)
next
  case (5 p k pos rest caps)
  then show ?case
    by (auto simp: bt.simps(5) [of p k pos rest caps]
        split: list.splits if_splits option.splits)
next
  case (6 a b k pos rest caps)
  then show ?case by (auto simp: bt.simps(6) [of a b k pos rest caps])
next
  case (7 a b k pos rest caps)
  then show ?case by (auto simp: bt.simps(7) [of a b k pos rest caps] split: option.splits)
next
  case (8 k pos rest caps)
  then show ?case by (auto simp: bt.simps(8) [of k pos rest caps])
next
  case (9 n r k pos rest caps)
  then show ?case by (auto simp: bt.simps(9) [of n r k pos rest caps])
next
  case (10 k pos rest caps)
  then show ?case by (auto simp: bt.simps(10) [of k pos rest caps] split: if_splits)
next
  case (11 k pos rest caps)
  then show ?case by (auto simp: bt.simps(11) [of k pos rest caps] split: if_splits)
qed

lemma exec_from_groups:
  "exec_from r pos rest = Some m \<Longrightarrow> mand r \<subseteq> fst ` set (groups m)"
proof (induction r pos rest rule: exec_from.induct)
  case (1 r pos rest)
  show ?case
  proof (cases "bt [Run r] pos rest []")
    case None
    with "1.prems" obtain c cs where rest: "rest = c # cs"
      and ex: "exec_from r (Suc pos) cs = Some m"
      by (auto simp: exec_from.simps [of r pos rest] split: list.splits)
    from "1.IH" [OF None rest ex] show ?thesis .
  next
    case (Some a)
    obtain e caps where a: "a = (e, caps)" by (cases a)
    with Some "1.prems" have m: "groups m = caps"
      by (auto simp: exec_from.simps [of r pos rest])
    from bt_groups [of "[Run r]" pos rest "[]" e caps] Some a show ?thesis
      by (simp add: m)
  qed
qed

lemma match_grp:
  "match s r = Some m \<Longrightarrow> n \<in> mand r \<Longrightarrow> \<exists>g. map_of (groups m) n = Some g"
  using exec_from_groups [of r 0 s m]
  by (metis match_def map_of_eq_None_iff not_None_eq subsetD)

lemma optionRe_groups:
  "match s optionRe = Some m \<Longrightarrow>
   (\<exists>g. map_of (groups m) 1 = Some g) \<and> (\<exists>g. map_of (groups m) 2 = Some g)"
  using match_grp [of s optionRe m 1] match_grp [of s optionRe m 2]
  by (simp add: optionRe_def Plus_def LazyPlus_def Opt_def)

lemma questionRe_groups:
  "match s questionRe = Some m \<Longrightarrow>
   (\<exists>g. map_of (groups m) 1 = Some g) \<and> (\<exists>g. map_of (groups m) 2 = Some g)"
  using match_grp [of s questionRe m 1] match_grp [of s questionRe m 2]
  by (simp add: questionRe_def Plus_def LazyPlus_def Opt_def)

lemma parseOptions_line_append:
  "parseOptions_line options line = options @ parseOptions_line [] line"
  by (simp add: parseOptions_line_def Let_def split: option.splits)

lemma parseOptions_line_length: "length (parseOptions_line [] line) \<le> 1"
  by (simp add: parseOptions_line_def Let_def split: option.splits)

lemma foldl_parseOptions_line:
  "foldl parseOptions_line acc lines = acc @ concat (map (parseOptions_line []) lines)"
proof (induction lines arbitrary: acc)
  case Nil
  then show ?case by simp
next
  case (Cons l ls)
  show ?case
    using parseOptions_line_append [of acc l] by (simp add: Cons.IH)
qed

lemma parseOptions_housing:
  "parseOptionsFromText (js ''1. Apply for housing grant\<newline>2. Apply for medical grant'') =
     [\<lparr>opt_id = js ''opt-1'', label = js ''Apply for housing grant'',
       opt_value = js ''1. Apply for housing grant''\<rparr>,
      \<lparr>opt_id = js ''opt-2'', label = js ''Apply for medical grant'',
       opt_value = js ''2. Apply for medical grant''\<rparr>]"
  by (simp add: extract_defs regex_defs class_defs)

lemma parseOptions_Hi: "parseOptionsFromText (js ''1. Hi'') = []"
  by (simp add: extract_defs regex_defs class_defs)

lemma parseOptions_Hey:
  "parseOptionsFromText (js ''1. Hey'') =
     [\<lparr>opt_id = js ''opt-1'', label = js ''Hey'', opt_value = js ''1. Hey''\<rparr>]"
  by (simp add: extract_defs regex_defs class_defs)

lemma parseOptions_seven:
  "parseOptionsFromText
     (js ''1. aaa\<newline>2. bbb\<newline>no\<newline>3. ccc\<newline>4. d\<newline>5. eee\<newline>6. fff\<newline>7. ggg\<newline>8. hhh'') =
     [\<lparr>opt_id = js ''opt-1'', label = js ''aaa'', opt_value = js ''1. aaa''\<rparr>,
      \<lparr>opt_id = js ''opt-2'', label = js ''bbb'', opt_value = js ''2. bbb''\<rparr>,
      \<lparr>opt_id = js ''opt-3'', label = js ''ccc'', opt_value = js ''3. ccc''\<rparr>,
      \<lparr>opt_id = js ''opt-5'', label = js ''eee'', opt_value = js ''5. eee''\<rparr>,
      \<lparr>opt_id = js ''opt-6'', label = js ''fff'', opt_value = js ''6. fff''\<rparr>,
      \<lparr>opt_id = js ''opt-7'', label = js ''ggg'', opt_value = js ''7. ggg''\<rparr>]"
  by (simp add: extract_defs regex_defs class_defs)

lemma parseOptions_100: "parseOptionsFromText (js ''1. aaaaaaaaaaaaaaaaaaaaaaaaaaaaaaaaaaaaaaaaaaaaaaaaaaaaaaaaaaaaaaaaaaaaaaaaaaaaaaaaaaaaaaaaaaaaaaaaaaaa'') = []"
  by (simp add: extract_defs regex_defs class_defs)

lemma parseOptions_99:
  "parseOptionsFromText (js ''1. aaaaaaaaaaaaaaaaaaaaaaaaaaaaaaaaaaaaaaaaaaaaaaaaaaaaaaaaaaaaaaaaaaaaaaaaaaaaaaaaaaaaaaaaaaaaaaaaaaa'') =
     [\<lparr>opt_id = js ''opt-1'', label = js ''aaaaaaaaaaaaaaaaaaaaaaaaaaaaaaaaaaaaaaaaaaaaaaaaaaaaaaaaaaaaaaaaaaaaaaaaaaaaaaaaaaaaaaaaaaaaaaaaaaa'', opt_value = js ''1. aaaaaaaaaaaaaaaaaaaaaaaaaaaaaaaaaaaaaaaaaaaaaaaaaaaaaaaaaaaaaaaaaaaaaaaaaaaaaaaaaaaaaaaaaaaaaaaaaaa''\<rparr>]"
  by (simp add: extract_defs regex_defs class_defs)

lemma parseMultiQuestions_two:
  "parseMultiQuestions (js ''1. Do you rent your home?\<newline>2. Do you own a vehicle?'') =
     [\<lparr>questionId = js ''q-1'', questionText = js ''Do you rent your home?'', answer = None\<rparr>,
      \<lparr>questionId = js ''q-2'', questionText = js ''Do you own a vehicle?'', answer = None\<rparr>]"
  by (simp add: extract_defs regex_defs class_defs)

lemma parseMultiQuestions_first:
  "parseMultiQuestions (js ''1. Do you rent your home?'') =
     [\<lparr>questionId = js ''q-1'', questionText = js ''Do you rent your home?'', answer = None\<rparr>]"
  by (simp add: extract_defs regex_defs class_defs)

lemma parseMultiQuestions_second:
  "parseMultiQuestions (js ''2. Do you own a vehicle?'') =
     [\<lparr>questionId = js ''q-2'', questionText = js ''Do you own a vehicle?'', answer = None\<rparr>]"
  by (simp add: extract_defs regex_defs class_defs)

subsection \<open>The submission handlers and the stream events\<close>

lemma handleSend_eq: "handleSend s now = handleSendWithText s s (inputText s) now"
  by (simp add: handleSend_def handleSendWithText_def Let_def)

lemma handleSendWithText_accepted:
  "handleSendWithText r s txt now = (s', Some x) \<Longrightarrow>
   trim txt \<noteq> [] \<and> \<not> isProcessing r \<and> MIN_MESSAGE_INTERVAL \<le> now - lastMessageTime r \<and>
   lastMessageTime s' = now \<and> isProcessing s' \<and> isMounted s' = isMounted s \<and>
   requests s' = requests s @ [txt] \<and>
   messages s' = messages s @
     [\<lparr>msg_id = js ''user-'' @ show_nat (messageCounter s) @ js ''-'' @ show_int now,
       role = User, msg_text = txt, groundingChunks = None, isStreaming = None, hasError = None\<rparr>,
      \<lparr>msg_id = aiMsgId x, role = Model, msg_text = [], groundingChunks = None,
       isStreaming = Some True, hasError = None\<rparr>] \<and>
   aiMsgId x = js ''ai-'' @ show_nat (messageCounter s) @ js ''-'' @ show_int now \<and>
   accumulatedText x = [] \<and> accumulatedGrounding x = []"
  by (auto simp: handleSendWithText_def Let_def split: if_splits)

lemma handleSendWithText_rejected:
  "trim txt = [] \<or> isProcessing r \<or> now - lastMessageTime r < MIN_MESSAGE_INTERVAL \<Longrightarrow>
   handleSendWithText r s txt now = (s, None)"
  by (auto simp: handleSendWithText_def)

lemma handleSendWithText_cases:
  "handleSendWithText r s txt now = (s, None) \<or>
   (\<exists>s' x. handleSendWithText r s txt now = (s', Some x))"
  by (auto simp: handleSendWithText_def Let_def)

lemma deliver_frame:
  "deliver (s, x) ev = (s', x') \<Longrightarrow>
   isProcessing s' = isProcessing s \<and> lastMessageTime s' = lastMessageTime s \<and>
   inputText s' = inputText s \<and> error s' = error s \<and> requests s' = requests s \<and>
   messageCounter s' = messageCounter s \<and> hasStarted s' = hasStarted s \<and>
   isInitializing s' = isInitializing s \<and>
   aiMsgId x' = aiMsgId x \<and>
   map msg_id (messages s') = map msg_id (messages s) \<and>
   map role (messages s') = map role (messages s) \<and>
   map isStreaming (messages s') = map isStreaming (messages s) \<and>
   map hasError (messages s') = map hasError (messages s)"
  by (cases ev) (auto simp: deliver_def onChunk_def Let_def split: if_splits)

lemma foldl_deliver_frame:
  "foldl deliver (s, x) evs = (s', x') \<Longrightarrow>
   isProcessing s' = isProcessing s \<and> lastMessageTime s' = lastMessageTime s \<and>
   inputText s' = inputText s \<and> error s' = error s \<and> requests s' = requests s \<and>
   messageCounter s' = messageCounter s \<and> hasStarted s' = hasStarted s \<and>
   isInitializing s' = isInitializing s \<and>
   aiMsgId x' = aiMsgId x \<and>
   map msg_id (messages s') = map msg_id (messages s) \<and>
   map role (messages s') = map role (messages s) \<and>
   map isStreaming (messages s') = map isStreaming (messages s) \<and>
   map hasError (messages s') = map hasError (messages s)"
proof (induction evs arbitrary: s x)
  case Nil
  then show ?case by simp
next
  case (Cons ev evs)
  obtain s1 x1 where d: "deliver (s, x) ev = (s1, x1)" by (cases "deliver (s, x) ev")
  with Cons.prems have f: "foldl deliver (s1, x1) evs = (s', x')" by simp
  from Cons.IH [OF f] deliver_frame [OF d] show ?case by simp
qed

lemma afterStream_lastMessageTime:
  "lastMessageTime (afterStream s x thrown) = lastMessageTime s"
  by (simp add: afterStream_def Let_def split: option.splits)

lemma runExchange_lastMessageTime:
  "lastMessageTime (runExchange s x events result) = lastMessageTime s"
proof -
  obtain s' x' where f: "foldl deliver (s, x) events = (s', x')"
    by (cases "foldl deliver (s, x) events")
  from foldl_deliver_frame [OF f] show ?thesis
    by (simp add: runExchange_def sendMessageStream_def f finallyBlock_def
        afterStream_lastMessageTime)
qed

lemma handleInputChange_lastMessageTime:
  "lastMessageTime (handleInputChange s v) = lastMessageTime s"
  by (simp add: handleInputChange_def)

lemma handleSend_example: "handleSend exampleStart 5000 = (exampleSent, Some exampleExchange)"
  by (simp add: handleSend_def example_defs trim_def js_def isWhiteSpace_def
      MIN_MESSAGE_INTERVAL_def show_nat.simps show_int_def Let_def)

lemma findIndex_None: "(\<forall>x \<in> set xs. \<not> P x) \<Longrightarrow> findIndex P xs = None"
  by (induction xs) auto

lemma findIndex_first:
  "k < length xs \<Longrightarrow> P (xs ! k) \<Longrightarrow> (\<forall>j < k. \<not> P (xs ! j)) \<Longrightarrow> findIndex P xs = Some k"
proof (induction xs arbitrary: k)
  case Nil
  then show ?case by simp
next
  case (Cons x xs)
  show ?case
  proof (cases k)
    case 0
    with Cons.prems show ?thesis by simp
  next
    case (Suc k')
    with Cons.prems have "\<not> P x" by auto
    moreover from Suc Cons.prems have "findIndex P xs = Some k'"
      by (intro Cons.IH) auto
    ultimately show ?thesis using Suc by simp
  qed
qed

lemma handleSend_guard:
  "(handleSend s now = (s', Some x) \<longrightarrow>
      trim (inputText s) \<noteq> [] \<and> \<not> isProcessing s \<and> 1000 \<le> now - lastMessageTime s \<and>
      lastMessageTime s' = now \<and> length (messages s') = length (messages s) + 2) \<and>
   (trim (inputText s) = [] \<or> isProcessing s \<or> now - lastMessageTime s < 1000 \<longrightarrow>
      handleSend s now = (s, None)) \<and>
   (handleSend s now = (s', Some x) \<and> now2 - now < 1000 \<longrightarrow>
      handleSend s' now2 = (s', None) \<and>
      handleSend (handleInputChange (runExchange s' x events result) v) now2 =
        (handleInputChange (runExchange s' x events result) v, None))"
proof -
  have A: "handleSend s now = (s', Some x) \<longrightarrow>
      trim (inputText s) \<noteq> [] \<and> \<not> isProcessing s \<and> 1000 \<le> now - lastMessageTime s \<and>
      lastMessageTime s' = now \<and> length (messages s') = length (messages s) + 2"
  proof
    assume "handleSend s now = (s', Some x)"
    then have "handleSendWithText s s (inputText s) now = (s', Some x)"
      by (simp add: handleSend_eq)
    from handleSendWithText_accepted [OF this]
    show "trim (inputText s) \<noteq> [] \<and> \<not> isProcessing s \<and> 1000 \<le> now - lastMessageTime s \<and>
      lastMessageTime s' = now \<and> length (messages s') = length (messages s) + 2"
      by (simp add: MIN_MESSAGE_INTERVAL_def)
  qed
  have B: "trim (inputText s) = [] \<or> isProcessing s \<or> now - lastMessageTime s < 1000 \<longrightarrow>
      handleSend s now = (s, None)"
    by (simp add: handleSend_eq handleSendWithText_rejected MIN_MESSAGE_INTERVAL_def)
  have C: "handleSend s now = (s', Some x) \<and> now2 - now < 1000 \<longrightarrow>
      handleSend s' now2 = (s', None) \<and>
      handleSend (handleInputChange (runExchange s' x events result) v) now2 =
        (handleInputChange (runExchange s' x events result) v, None)"
  proof
    assume a: "handleSend s now = (s', Some x) \<and> now2 - now < 1000"
    with A have t: "lastMessageTime s' = now" by simp
    have late: "now2 - lastMessageTime s' < MIN_MESSAGE_INTERVAL"
      using a t by (simp add: MIN_MESSAGE_INTERVAL_def)
    then show "handleSend s' now2 = (s', None) \<and>
      handleSend (handleInputChange (runExchange s' x events result) v) now2 =
        (handleInputChange (runExchange s' x events result) v, None)"
      by (simp add: handleSend_eq handleSendWithText_rejected runExchange_lastMessageTime
          handleInputChange_lastMessageTime)
  qed
  show ?thesis by (intro conjI A B C)
qed

lemma handleSendWithText_guard:
  "(handleSendWithText r s t now = (s', Some x) \<longrightarrow>
      trim t \<noteq> [] \<and> \<not> isProcessing r \<and> 1000 \<le> now - lastMessageTime r \<and>
      lastMessageTime s' = now \<and> length (messages s') = length (messages s) + 2) \<and>
   (trim t = [] \<or> isProcessing r \<or> now - lastMessageTime r < 1000 \<longrightarrow>
      handleSendWithText r s t now = (s, None))"
proof -
  have A: "handleSendWithText r s t now = (s', Some x) \<longrightarrow>
      trim t \<noteq> [] \<and> \<not> isProcessing r \<and> 1000 \<le> now - lastMessageTime r \<and>
      lastMessageTime s' = now \<and> length (messages s') = length (messages s) + 2"
  proof
    assume "handleSendWithText r s t now = (s', Some x)"
    from handleSendWithText_accepted [OF this]
    show "trim t \<noteq> [] \<and> \<not> isProcessing r \<and> 1000 \<le> now - lastMessageTime r \<and>
      lastMessageTime s' = now \<and> length (messages s') = length (messages s) + 2"
      by (simp add: MIN_MESSAGE_INTERVAL_def)
  qed
  have B: "trim t = [] \<or> isProcessing r \<or> now - lastMessageTime r < 1000 \<longrightarrow>
      handleSendWithText r s t now = (s, None)"
    by (simp add: handleSendWithText_rejected MIN_MESSAGE_INTERVAL_def)
  show ?thesis by (intro conjI A B)
qed

subsection \<open>Streams\<close>

lemma deliver_unmounted: "\<not> isMounted s \<Longrightarrow> deliver (s, x) ev = (s, x)"
  by (cases ev) (simp_all add: deliver_def onChunk_def)

lemma foldl_deliver_unmounted: "\<not> isMounted s \<Longrightarrow> foldl deliver (s, x) evs = (s, x)"
  by (induction evs) (simp_all add: deliver_unmounted)

lemma foldl_deliver_Unmount:
  "Unmount \<in> set evs \<Longrightarrow> \<not> isMounted (fst (foldl deliver (s, x) evs))"
proof (induction evs arbitrary: s x)
  case Nil
  then show ?case by simp
next
  case (Cons ev evs)
  show ?case
  proof (cases "ev = Unmount")
    case True
    have "deliver (s, x) Unmount = (s\<lparr>isMounted := False\<rparr>, x)"
      by (simp add: deliver_def)
    with True show ?thesis
      by (simp add: foldl_deliver_unmounted)
  next
    case False
    with Cons.prems have "Unmount \<in> set evs" by simp
    from Cons.IH [OF this] show ?thesis
      by (cases "deliver (s, x) ev") simp
  qed
qed

lemma foldl_deliver_mounted:
  "Unmount \<notin> set evs \<Longrightarrow> isMounted (fst (foldl deliver (s, x) evs)) = isMounted s"
proof (induction evs arbitrary: s x)
  case Nil
  then show ?case by simp
next
  case (Cons ev evs)
  from Cons.prems obtain chunk chunks where ev: "ev = Chunk chunk chunks"
    by (cases ev) auto
  obtain s1 x1 where d: "deliver (s, x) ev = (s1, x1)" by (cases "deliver (s, x) ev")
  then have "isMounted s1 = isMounted s"
    by (auto simp: ev deliver_def onChunk_def Let_def split: if_splits)
  with Cons.IH [of s1 x1] Cons.prems d show ?case by simp
qed

lemma foldl_deliver_fragments:
  "isMounted s \<Longrightarrow>
   foldl deliver (s, x) (fragment_events frags) =
     (if frags = [] then (s, x)
      else
        (s\<lparr>messages :=
             map (\<lambda>msg. if msg_id msg = aiMsgId x
                        then msg\<lparr>msg_text := accumulatedText x @ concat (map fst frags),
                                 groundingChunks :=
                                   Some (accumulatedGrounding x @
                                     concat (map (batch \<circ> snd) frags))\<rparr>
                        else msg) (messages s)\<rparr>,
         x\<lparr>accumulatedText := accumulatedText x @ concat (map fst frags),
           accumulatedGrounding :=
             accumulatedGrounding x @ concat (map (batch \<circ> snd) frags)\<rparr>))"
proof (induction frags arbitrary: s x)
  case Nil
  then show ?case by (simp add: fragment_events_def)
next
  case (Cons f frags)
  obtain chunk chunks where f: "f = (chunk, chunks)" by (cases f)
  let ?x1 = "x\<lparr>accumulatedText := accumulatedText x @ chunk,
    accumulatedGrounding := accumulatedGrounding x @ batch chunks\<rparr>"
  let ?s1 = "s\<lparr>messages :=
    map (\<lambda>msg. if msg_id msg = aiMsgId x
               then msg\<lparr>msg_text := accumulatedText ?x1,
                        groundingChunks := Some (accumulatedGrounding ?x1)\<rparr>
               else msg) (messages s)\<rparr>"
  have d: "deliver (s, x) (Chunk chunk chunks) = (?s1, ?x1)"
    using Cons.prems by (simp add: deliver_def onChunk_def Let_def batch_def split: option.splits)
  have m1: "isMounted ?s1" using Cons.prems by simp
  have step: "foldl deliver (s, x) (fragment_events (f # frags)) =
      foldl deliver (?s1, ?x1) (fragment_events frags)"
    by (simp add: fragment_events_def f d)
  have "foldl deliver (?s1, ?x1) (fragment_events frags) =
     (if f # frags = [] then (s, x)
      else
        (s\<lparr>messages :=
             map (\<lambda>msg. if msg_id msg = aiMsgId x
                        then msg\<lparr>msg_text := accumulatedText x @ concat (map fst (f # frags)),
                                 groundingChunks :=
                                   Some (accumulatedGrounding x @
                                     concat (map (batch \<circ> snd) (f # frags)))\<rparr>
                        else msg) (messages s)\<rparr>,
         x\<lparr>accumulatedText := accumulatedText x @ concat (map fst (f # frags)),
           accumulatedGrounding :=
             accumulatedGrounding x @ concat (map (batch \<circ> snd) (f # frags))\<rparr>))"
  proof (cases "frags = []")
    case True
    then show ?thesis by (simp add: f fragment_events_def)
  next
    case False
    then show ?thesis
      by (simp add: Cons.IH [OF m1] f comp_def)
  qed
  then show ?case by (simp only: step)
qed

lemma delivered_last:
  assumes start: "handleSendWithText r s t now = (s1, Some x)" and m: "isMounted s"
    and run: "foldl deliver (s1, x) (fragment_events frags) = (sd, xd)"
  shows "isMounted sd \<and> aiMsgId xd = aiMsgId x \<and> isProcessing sd \<and>
    length (messages sd) = length (messages s) + 2 \<and>
    last (messages sd) =
      \<lparr>msg_id = aiMsgId x, role = Model, msg_text = concat (map fst frags),
       groundingChunks =
         (if frags = [] then None else Some (concat (map (batch \<circ> snd) frags))),
       isStreaming = Some True, hasError = None\<rparr>"
proof -
  note a = handleSendWithText_accepted [OF start]
  from a m have m1: "isMounted s1" by simp
  from run foldl_deliver_fragments [OF m1, of x frags]
  have sd: "(sd, xd) =
     (if frags = [] then (s1, x)
      else
        (s1\<lparr>messages :=
             map (\<lambda>msg. if msg_id msg = aiMsgId x
                        then msg\<lparr>msg_text := accumulatedText x @ concat (map fst frags),
                                 groundingChunks :=
                                   Some (accumulatedGrounding x @
                                     concat (map (batch \<circ> snd) frags))\<rparr>
                        else msg) (messages s1)\<rparr>,
         x\<lparr>accumulatedText := accumulatedText x @ concat (map fst frags),
           accumulatedGrounding :=
             accumulatedGrounding x @ concat (map (batch \<circ> snd) frags)\<rparr>))"
    by simp
  show ?thesis
  proof (cases "frags = []")
    case True
    with sd have "sd = s1" "xd = x" by simp_all
    with a m1 True show ?thesis by simp
  next
    case False
    with sd have "sd = s1\<lparr>messages :=
             map (\<lambda>msg. if msg_id msg = aiMsgId x
                        then msg\<lparr>msg_text := accumulatedText x @ concat (map fst frags),
                                 groundingChunks :=
                                   Some (accumulatedGrounding x @
                                     concat (map (batch \<circ> snd) frags))\<rparr>
                        else msg) (messages s1)\<rparr>"
      and "xd = x\<lparr>accumulatedText := accumulatedText x @ concat (map fst frags),
           accumulatedGrounding :=
             accumulatedGrounding x @ concat (map (batch \<circ> snd) frags)\<rparr>"
      by simp_all
    with a m1 False show ?thesis by simp
  qed
qed

lemma runExchange_unfold:
  "foldl deliver (s, x) evs = (sd, xd) \<Longrightarrow>
   runExchange s x evs result =
     finallyBlock (afterStream sd xd (snd (sendMessageStream evs result (s, x))))"
  by (simp add: runExchange_def sendMessageStream_def)

lemma started:
  "handleSend s now = (s1, Some x) \<or> handleSendWithText r s t now = (s1, Some x) \<Longrightarrow>
   \<exists>r' t'. handleSendWithText r' s t' now = (s1, Some x)"
  by (auto simp: handleSend_eq)

lemma thrown_message_nonempty:
  "snd (sendMessageStream evs (StreamThrows e) sx) = Some em \<Longrightarrow>
   (case em of None \<Rightarrow> js ''I had trouble connecting. Please try saying that again.''
    | Some m \<Rightarrow> if m = [] then js ''I had trouble connecting. Please try saying that again.''
               else m) \<noteq> []"
  by (auto simp: sendMessageStream_def js_def split: option.splits if_splits)

subsection \<open>Two clicks on a quick reply\<close>

lemma click1: "handleQuickReplyClick exampleReady yesOption =
    (exampleReady\<lparr>inputText := js ''Yes''\<rparr>, Some \<lparr>closure = exampleReady, sendText = js ''Yes''\<rparr>)"
  by (simp add: handleQuickReplyClick_def exampleReady_def yesOption_def)

lemma click2: "handleQuickReplyClick (exampleReady\<lparr>inputText := js ''Yes''\<rparr>) yesOption =
    (exampleReady\<lparr>inputText := js ''Yes''\<rparr>,
     Some \<lparr>closure = exampleReady\<lparr>inputText := js ''Yes''\<rparr>, sendText = js ''Yes''\<rparr>)"
  by (simp add: handleQuickReplyClick_def exampleReady_def yesOption_def)

lemma trimYes: "trim (js ''Yes'') = js ''Yes''"
  by (simp add: trim_def js_def isWhiteSpace_def)

lemma fire1:
  "handleSendWithText exampleReady (exampleReady\<lparr>inputText := js ''Yes''\<rparr>) (js ''Yes'') 20050 =
     (exampleFirstSent,
      Some \<lparr>aiMsgId = js ''ai-1-20050'', accumulatedText = [], accumulatedGrounding = []\<rparr>)"
  by (simp add: handleSendWithText_def trimYes exampleReady_def exampleFirstSent_def
      MIN_MESSAGE_INTERVAL_def show_nat.simps show_int_def Let_def)
    (simp add: js_def)

lemma fire2:
  "handleSendWithText (exampleReady\<lparr>inputText := js ''Yes''\<rparr>) exampleFirstSent (js ''Yes'') 20060 =
     (exampleSecondSent,
      Some \<lparr>aiMsgId = js ''ai-2-20060'', accumulatedText = [], accumulatedGrounding = []\<rparr>)"
  by (simp add: handleSendWithText_def trimYes exampleReady_def exampleFirstSent_def
      exampleSecondSent_def MIN_MESSAGE_INTERVAL_def show_nat.simps show_int_def Let_def)
    (simp add: js_def)

lemma yesOption_offered:
  "getQuickReplies toLowerCaseASCII (messages exampleReady) (isProcessing exampleReady) =
     [yesOption,
      \<lparr>opt_id = js ''no'', label = js ''No'', opt_value = js ''No''\<rparr>,
      \<lparr>opt_id = js ''more'', label = js ''Tell me more'',
        opt_value = js ''Can you tell me more about that?''\<rparr>,
      \<lparr>opt_id = js ''help'', label = js ''I need help understanding'',
        opt_value = js ''I need help understanding this. Can you explain it in simpler terms?''\<rparr>]"
proof -
  have low: "toLowerCaseASCII (msg_text exampleQuestion) = js ''do you need help with a grant form?''"
    by (simp add: toLowerCaseASCII_def exampleQuestion_def js_def)
  have q: "role exampleQuestion = Model" "isStreaming exampleQuestion = Some False"
    by (simp_all add: exampleQuestion_def)
  show ?thesis
    by (simp add: getQuickReplies_def exampleReady_def low q truthy_def yesOption_def Let_def)
      (simp add: js_def)
qed

section \<open>The stream assembler\<close>

text \<open>
  Claim C1. An exchange is started by \<open>handleSend\<close> or \<open>handleSendWithText\<close> on a
  mounted component; its placeholder is the last message. When the fragments
  \<open>F1..Fn\<close> have been delivered to the chunk callback, with no teardown in between, the
  text of the placeholder is the concatenation of the fragments' texts in the order of
  arrival, and its citations are the concatenation of the fragments' batches in that
  order, duplicates kept (the field is absent as long as no fragment has arrived). Both
  are the same after the stream has ended normally; the message is then not streaming
  any more, has no error, and the sequence is two messages longer than before the
  exchange.
\<close>

theorem stream_assembly:
  "(handleSend s now = (s1, Some x) \<or> handleSendWithText r s t now = (s1, Some x)) \<and>
   isMounted s \<longrightarrow>
     msg_text (last (messages (fst (foldl deliver (s1, x) (fragment_events frags))))) =
       concat (map fst frags) \<and>
     batch (groundingChunks
        (last (messages (fst (foldl deliver (s1, x) (fragment_events frags)))))) =
       concat (map (batch \<circ> snd) frags) \<and>
     msg_text (last (messages (runExchange s1 x (fragment_events frags) StreamEnd))) =
       concat (map fst frags) \<and>
     batch (groundingChunks
        (last (messages (runExchange s1 x (fragment_events frags) StreamEnd)))) =
       concat (map (batch \<circ> snd) frags) \<and>
     last (messages (runExchange s1 x (fragment_events frags) StreamEnd)) =
       \<lparr>msg_id = aiMsgId x, role = Model, msg_text = concat (map fst frags),
        groundingChunks =
          (if frags = [] then None else Some (concat (map (batch \<circ> snd) frags))),
        isStreaming = Some False, hasError = None\<rparr> \<and>
     length (messages (runExchange s1 x (fragment_events frags) StreamEnd)) =
       length (messages s) + 2"
proof
  assume a: "(handleSend s now = (s1, Some x) \<or> handleSendWithText r s t now = (s1, Some x)) \<and>
    isMounted s"
  then obtain r' t' where start: "handleSendWithText r' s t' now = (s1, Some x)"
    using started by blast
  from a have m: "isMounted s" by simp
  obtain sd xd where run: "foldl deliver (s1, x) (fragment_events frags) = (sd, xd)"
    by (cases "foldl deliver (s1, x) (fragment_events frags)")
  note d = delivered_last [OF start m run]
  from d have ne: "messages sd \<noteq> []" by auto
  have fin: "runExchange s1 x (fragment_events frags) StreamEnd =
      sd\<lparr>messages := map (\<lambda>msg. if msg_id msg = aiMsgId x then msg\<lparr>isStreaming := Some False\<rparr>
                                else msg) (messages sd),
         isProcessing := False\<rparr>"
    using d by (simp add: runExchange_unfold [OF run] sendMessageStream_def afterStream_def
        finallyBlock_def)
  have lastfin: "last (messages (runExchange s1 x (fragment_events frags) StreamEnd)) =
       \<lparr>msg_id = aiMsgId x, role = Model, msg_text = concat (map fst frags),
        groundingChunks =
          (if frags = [] then None else Some (concat (map (batch \<circ> snd) frags))),
        isStreaming = Some False, hasError = None\<rparr>"
    using d ne by (simp add: fin last_map)
  show "msg_text (last (messages (fst (foldl deliver (s1, x) (fragment_events frags))))) =
       concat (map fst frags) \<and>
     batch (groundingChunks
        (last (messages (fst (foldl deliver (s1, x) (fragment_events frags)))))) =
       concat (map (batch \<circ> snd) frags) \<and>
     msg_text (last (messages (runExchange s1 x (fragment_events frags) StreamEnd))) =
       concat (map fst frags) \<and>
     batch (groundingChunks
        (last (messages (runExchange s1 x (fragment_events frags) StreamEnd)))) =
       concat (map (batch \<circ> snd) frags) \<and>
     last (messages (runExchange s1 x (fragment_events frags) StreamEnd)) =
       \<lparr>msg_id = aiMsgId x, role = Model, msg_text = concat (map fst frags),
        groundingChunks =
          (if frags = [] then None else Some (concat (map (batch \<circ> snd) frags))),
        isStreaming = Some False, hasError = None\<rparr> \<and>
     length (messages (runExchange s1 x (fragment_events frags) StreamEnd)) =
       length (messages s) + 2"
    unfolding lastfin using d by (simp add: run fin batch_def)
qed

theorem stream_assembly_witness:
  "handleSend exampleStart 5000 = (exampleSent, Some exampleExchange) \<and>
   isMounted exampleStart \<and>
   msg_text (last (messages (fst (foldl deliver (exampleSent, exampleExchange)
       (fragment_events exampleFragments))))) = js ''Hi there!'' \<and>
   last (messages (runExchange exampleSent exampleExchange (fragment_events exampleFragments)
       StreamEnd)) =
     \<lparr>msg_id = js ''ai-0-5000'', role = Model, msg_text = js ''Hi there!'',
      groundingChunks = Some [exampleSource, exampleSource],
      isStreaming = Some False, hasError = None\<rparr>"
proof -
  have start: "handleSend exampleStart 5000 = (exampleSent, Some exampleExchange)"
    by (rule handleSend_example)
  have m: "isMounted exampleStart" by (simp add: exampleStart_def initialState_def)
  note t = stream_assembly [where s = exampleStart and now = 5000 and ?s1.0 = exampleSent
      and x = exampleExchange and frags = exampleFragments, THEN mp,
      OF conjI [OF disjI1 [OF start] m]]
  have a: "msg_text (last (messages (fst (foldl deliver (exampleSent, exampleExchange)
       (fragment_events exampleFragments))))) = js ''Hi there!''"
    using t [THEN conjunct1] by (simp add: exampleFragments_def js_def)
  have b: "last (messages (runExchange exampleSent exampleExchange
       (fragment_events exampleFragments) StreamEnd)) =
     \<lparr>msg_id = js ''ai-0-5000'', role = Model, msg_text = js ''Hi there!'',
      groundingChunks = Some [exampleSource, exampleSource],
      isStreaming = Some False, hasError = None\<rparr>"
    using t [THEN conjunct2, THEN conjunct2, THEN conjunct2, THEN conjunct2, THEN conjunct1]
    by (simp add: exampleFragments_def exampleExchange_def js_def batch_def)
  show ?thesis by (rule conjI [OF start conjI [OF m conjI [OF a b]]])
qed

section \<open>Structured-content extraction\<close>

text \<open>
  Claim C2. \<open>hasMultiQ\<close> holds for a message if and only if \<open>parseMultiQuestions\<close> finds
  at least 2 questions in its text, \<^verbatim>\<open>isStreaming\<close> is not true and \<^verbatim>\<open>hasError\<close> is not
  true; so it never holds for a message that is streaming. The two-question example
  yields exactly 2 questions, and each of its lines alone yields 1 question, for which
  \<open>hasMultiQ\<close> is false whatever the flags are.
\<close>

theorem multi_question_mode:
  "(hasMultiQ msg \<longleftrightarrow>
      2 \<le> length (parseMultiQuestions (msg_text msg)) \<and> isStreaming msg \<noteq> Some True \<and>
      hasError msg \<noteq> Some True) \<and>
   (isStreaming msg = Some True \<longrightarrow> \<not> hasMultiQ msg) \<and>
   parseMultiQuestions (js ''1. Do you rent your home?\<newline>2. Do you own a vehicle?'') =
     [\<lparr>questionId = js ''q-1'', questionText = js ''Do you rent your home?'', answer = None\<rparr>,
      \<lparr>questionId = js ''q-2'', questionText = js ''Do you own a vehicle?'', answer = None\<rparr>] \<and>
   parseMultiQuestions (js ''1. Do you rent your home?'') =
     [\<lparr>questionId = js ''q-1'', questionText = js ''Do you rent your home?'', answer = None\<rparr>] \<and>
   parseMultiQuestions (js ''2. Do you own a vehicle?'') =
     [\<lparr>questionId = js ''q-2'', questionText = js ''Do you own a vehicle?'', answer = None\<rparr>] \<and>
   hasMultipleQuestions (js ''1. Do you rent your home?\<newline>2. Do you own a vehicle?'') \<and>
   \<not> hasMultipleQuestions (js ''1. Do you rent your home?'') \<and>
   \<not> hasMultipleQuestions (js ''2. Do you own a vehicle?'') \<and>
   (msg_text msg = js ''1. Do you rent your home?\<newline>2. Do you own a vehicle?'' \<longrightarrow>
      (hasMultiQ msg \<longleftrightarrow> isStreaming msg \<noteq> Some True \<and> hasError msg \<noteq> Some True)) \<and>
   (msg_text msg = js ''1. Do you rent your home?'' \<or>
    msg_text msg = js ''2. Do you own a vehicle?'' \<longrightarrow> \<not> hasMultiQ msg)"
proof -
  have A: "hasMultiQ msg \<longleftrightarrow>
      2 \<le> length (parseMultiQuestions (msg_text msg)) \<and> isStreaming msg \<noteq> Some True \<and>
      hasError msg \<noteq> Some True"
    by (simp add: hasMultiQ_def truthy_def Let_def)
  have B: "isStreaming msg = Some True \<longrightarrow> \<not> hasMultiQ msg"
    by (simp add: A)
  have C: "hasMultipleQuestions (js ''1. Do you rent your home?\<newline>2. Do you own a vehicle?'')"
    by (simp add: hasMultipleQuestions_def parseMultiQuestions_two)
  have D: "\<not> hasMultipleQuestions (js ''1. Do you rent your home?'')"
    by (simp add: hasMultipleQuestions_def parseMultiQuestions_first)
  have E: "\<not> hasMultipleQuestions (js ''2. Do you own a vehicle?'')"
    by (simp add: hasMultipleQuestions_def parseMultiQuestions_second)
  have F: "msg_text msg = js ''1. Do you rent your home?\<newline>2. Do you own a vehicle?'' \<longrightarrow>
      (hasMultiQ msg \<longleftrightarrow> isStreaming msg \<noteq> Some True \<and> hasError msg \<noteq> Some True)"
    by (simp add: A parseMultiQuestions_two)
  have G: "msg_text msg = js ''1. Do you rent your home?'' \<or>
    msg_text msg = js ''2. Do you own a vehicle?'' \<longrightarrow> \<not> hasMultiQ msg"
    by (auto simp: A parseMultiQuestions_first parseMultiQuestions_second)
  show ?thesis
    by (intro conjI A B C D E F G parseMultiQuestions_two parseMultiQuestions_first
        parseMultiQuestions_second)
qed

theorem multi_question_mode_witness:
  "isStreaming \<lparr>msg_id = js ''ai-0-5000'', role = Model,
     msg_text = js ''1. Do you rent your home?\<newline>2. Do you own a vehicle?'',
     groundingChunks = Some [], isStreaming = Some True, hasError = None\<rparr> = Some True \<and>
   \<not> hasMultiQ \<lparr>msg_id = js ''ai-0-5000'', role = Model,
     msg_text = js ''1. Do you rent your home?\<newline>2. Do you own a vehicle?'',
     groundingChunks = Some [], isStreaming = Some True, hasError = None\<rparr> \<and>
   hasMultiQ \<lparr>msg_id = js ''ai-0-5000'', role = Model,
     msg_text = js ''1. Do you rent your home?\<newline>2. Do you own a vehicle?'',
     groundingChunks = Some [], isStreaming = Some False, hasError = None\<rparr> \<and>
   \<not> hasMultiQ \<lparr>msg_id = js ''ai-0-5000'', role = Model,
     msg_text = js ''1. Do you rent your home?'',
     groundingChunks = Some [], isStreaming = Some False, hasError = None\<rparr>"
proof -
  let ?two = "js ''1. Do you rent your home?\<newline>2. Do you own a vehicle?''"
  let ?streaming = "\<lparr>msg_id = js ''ai-0-5000'', role = Model, msg_text = ?two,
     groundingChunks = Some [], isStreaming = Some True, hasError = None\<rparr>"
  let ?final = "\<lparr>msg_id = js ''ai-0-5000'', role = Model, msg_text = ?two,
     groundingChunks = Some [], isStreaming = Some False, hasError = None\<rparr>"
  let ?one = "\<lparr>msg_id = js ''ai-0-5000'', role = Model,
     msg_text = js ''1. Do you rent your home?'',
     groundingChunks = Some [], isStreaming = Some False, hasError = None\<rparr>"
  have s: "isStreaming ?streaming = Some True" by simp
  have t: "msg_text ?final = ?two" by simp
  have o: "msg_text ?one = js ''1. Do you rent your home?'' \<or>
    msg_text ?one = js ''2. Do you own a vehicle?''" by simp
  note a = multi_question_mode [of ?streaming, THEN conjunct2, THEN conjunct1, THEN mp, OF s]
  note b = multi_question_mode [of ?final, THEN conjunct2, THEN conjunct2, THEN conjunct2,
      THEN conjunct2, THEN conjunct2, THEN conjunct2, THEN conjunct2, THEN conjunct2,
      THEN conjunct1, THEN mp, OF t]
  note c = multi_question_mode [of ?one, THEN conjunct2, THEN conjunct2, THEN conjunct2,
      THEN conjunct2, THEN conjunct2, THEN conjunct2, THEN conjunct2, THEN conjunct2,
      THEN conjunct2, THEN mp, OF o]
  have b': "hasMultiQ ?final" using b by simp
  show ?thesis by (rule conjI [OF s conjI [OF a conjI [OF b' c]]])
qed

text \<open>
  Claim C3. \<open>parseOptionsFromText\<close> on the two-line example returns exactly two
  options, labelled \<^verbatim>\<open>Apply for housing grant\<close> and \<^verbatim>\<open>Apply for medical grant\<close>, with
  the ids \<^verbatim>\<open>opt-1\<close> and \<^verbatim>\<open>opt-2\<close>. The line \<^verbatim>\<open>1. Hi\<close> (label of 2 characters) gives no
  option, \<^verbatim>\<open>1. Hey\<close> (3 characters) gives one; a label of 100 characters gives none, one
  of 99 characters gives one. For every line that the pattern matches: if the cleaned
  label has fewer than 3 or at least 100 characters, the line pushes nothing; otherwise
  it pushes exactly one option with that label. A line that does not match pushes
  nothing. For every text the result has at most 6 options: the options of the lines, in
  the order of the lines, cut after the sixth.
\<close>

theorem parseOptionsFromText_spec:
  "parseOptionsFromText (js ''1. Apply for housing grant\<newline>2. Apply for medical grant'') =
     [\<lparr>opt_id = js ''opt-1'', label = js ''Apply for housing grant'',
       opt_value = js ''1. Apply for housing grant''\<rparr>,
      \<lparr>opt_id = js ''opt-2'', label = js ''Apply for medical grant'',
       opt_value = js ''2. Apply for medical grant''\<rparr>] \<and>
   parseOptionsFromText (js ''1. Hi'') = [] \<and>
   parseOptionsFromText (js ''1. Hey'') =
     [\<lparr>opt_id = js ''opt-1'', label = js ''Hey'', opt_value = js ''1. Hey''\<rparr>] \<and>
   parseOptionsFromText
     (js ''1. aaa\<newline>2. bbb\<newline>no\<newline>3. ccc\<newline>4. d\<newline>5. eee\<newline>6. fff\<newline>7. ggg\<newline>8. hhh'') =
     [\<lparr>opt_id = js ''opt-1'', label = js ''aaa'', opt_value = js ''1. aaa''\<rparr>,
      \<lparr>opt_id = js ''opt-2'', label = js ''bbb'', opt_value = js ''2. bbb''\<rparr>,
      \<lparr>opt_id = js ''opt-3'', label = js ''ccc'', opt_value = js ''3. ccc''\<rparr>,
      \<lparr>opt_id = js ''opt-5'', label = js ''eee'', opt_value = js ''5. eee''\<rparr>,
      \<lparr>opt_id = js ''opt-6'', label = js ''fff'', opt_value = js ''6. fff''\<rparr>,
      \<lparr>opt_id = js ''opt-7'', label = js ''ggg'', opt_value = js ''7. ggg''\<rparr>] \<and>
   parseOptionsFromText (js ''1. aaaaaaaaaaaaaaaaaaaaaaaaaaaaaaaaaaaaaaaaaaaaaaaaaaaaaaaaaaaaaaaaaaaaaaaaaaaaaaaaaaaaaaaaaaaaaaaaaaaa'') = [] \<and>
   parseOptionsFromText (js ''1. aaaaaaaaaaaaaaaaaaaaaaaaaaaaaaaaaaaaaaaaaaaaaaaaaaaaaaaaaaaaaaaaaaaaaaaaaaaaaaaaaaaaaaaaaaaaaaaaaaa'') =
     [\<lparr>opt_id = js ''opt-1'', label = js ''aaaaaaaaaaaaaaaaaaaaaaaaaaaaaaaaaaaaaaaaaaaaaaaaaaaaaaaaaaaaaaaaaaaaaaaaaaaaaaaaaaaaaaaaaaaaaaaaaaa'', opt_value = js ''1. aaaaaaaaaaaaaaaaaaaaaaaaaaaaaaaaaaaaaaaaaaaaaaaaaaaaaaaaaaaaaaaaaaaaaaaaaaaaaaaaaaaaaaaaaaaaaaaaaaa''\<rparr>] \<and>
   (match line optionRe = Some m \<and>
    (length (cleanLabel (trim (grp m 2))) < 3 \<or> 100 \<le> length (cleanLabel (trim (grp m 2)))) \<longrightarrow>
      parseOptions_line options line = options) \<and>
   (match line optionRe = Some m \<and>
    3 \<le> length (cleanLabel (trim (grp m 2))) \<and> length (cleanLabel (trim (grp m 2))) < 100 \<longrightarrow>
      parseOptions_line options line =
        options @ [\<lparr>opt_id = js ''opt-'' @ grp m 1, label = cleanLabel (trim (grp m 2)),
                    opt_value = grp m 1 @ js ''. '' @ cleanLabel (trim (grp m 2))\<rparr>]) \<and>
   (match line optionRe = None \<longrightarrow> parseOptions_line options line = options) \<and>
   length (parseOptionsFromText text) \<le> 6 \<and>
   parseOptionsFromText text = take 6 (concat (map (parseOptions_line []) (split_nl text))) \<and>
   length (parseOptions_line [] line) \<le> 1"
proof -
  have A: "match line optionRe = Some m \<and>
    (length (cleanLabel (trim (grp m 2))) < 3 \<or> 100 \<le> length (cleanLabel (trim (grp m 2)))) \<longrightarrow>
      parseOptions_line options line = options"
    by (auto simp: parseOptions_line_def Let_def)
  have B: "match line optionRe = Some m \<and>
    3 \<le> length (cleanLabel (trim (grp m 2))) \<and> length (cleanLabel (trim (grp m 2))) < 100 \<longrightarrow>
      parseOptions_line options line =
        options @ [\<lparr>opt_id = js ''opt-'' @ grp m 1, label = cleanLabel (trim (grp m 2)),
                    opt_value = grp m 1 @ js ''. '' @ cleanLabel (trim (grp m 2))\<rparr>]"
    by (auto simp: parseOptions_line_def Let_def)
  have C: "match line optionRe = None \<longrightarrow> parseOptions_line options line = options"
    by (simp add: parseOptions_line_def)
  have D: "length (parseOptionsFromText text) \<le> 6"
    by (simp add: parseOptionsFromText_def)
  have E: "parseOptionsFromText text =
      take 6 (concat (map (parseOptions_line []) (split_nl text)))"
    by (simp add: parseOptionsFromText_def foldl_parseOptions_line)
  show ?thesis
    by (intro conjI parseOptions_housing parseOptions_Hi parseOptions_Hey parseOptions_seven
        parseOptions_100
        parseOptions_99 A B C D E
        parseOptions_line_length)
qed

theorem parseOptionsFromText_spec_witness:
  "match (js ''1. Hi'') optionRe =
     Some \<lparr>index = 0, endIndex = 5, groups = [(2, js ''Hi''), (1, js ''1'')]\<rparr> \<and>
   length (cleanLabel (trim (grp \<lparr>index = 0, endIndex = 5,
     groups = [(2, js ''Hi''), (1, js ''1'')]\<rparr> 2))) < 3 \<and>
   parseOptions_line [] (js ''1. Hi'') = [] \<and>
   match (js ''1. Hey'') optionRe =
     Some \<lparr>index = 0, endIndex = 6, groups = [(2, js ''Hey''), (1, js ''1'')]\<rparr> \<and>
   3 \<le> length (cleanLabel (trim (grp \<lparr>index = 0, endIndex = 6,
     groups = [(2, js ''Hey''), (1, js ''1'')]\<rparr> 2))) \<and>
   length (cleanLabel (trim (grp \<lparr>index = 0, endIndex = 6,
     groups = [(2, js ''Hey''), (1, js ''1'')]\<rparr> 2))) < 100 \<and>
   parseOptions_line [] (js ''1. Hey'') =
     [\<lparr>opt_id = js ''opt-1'', label = js ''Hey'', opt_value = js ''1. Hey''\<rparr>] \<and>
   match (js ''no'') optionRe = None \<and>
   parseOptions_line [] (js ''no'') = []"
proof -
  let ?hi = "\<lparr>index = 0, endIndex = 5, groups = [(2, js ''Hi''), (1, js ''1'')]\<rparr>"
  let ?hey = "\<lparr>index = 0, endIndex = 6, groups = [(2, js ''Hey''), (1, js ''1'')]\<rparr>"
  have m1: "match (js ''1. Hi'') optionRe = Some ?hi"
    by (simp add: js_def regex_defs class_defs)
  have l1: "length (cleanLabel (trim (grp ?hi 2))) < 3"
    by (simp add: extract_defs regex_defs class_defs)
  have m2: "match (js ''1. Hey'') optionRe = Some ?hey"
    by (simp add: js_def regex_defs class_defs)
  have c2: "cleanLabel (trim (grp ?hey 2)) = js ''Hey''"
    by (simp add: extract_defs regex_defs class_defs)
  have g2: "grp ?hey 1 = js ''1''"
    by (simp add: grp_def)
  have l2: "3 \<le> length (cleanLabel (trim (grp ?hey 2)))"
    by (simp only: c2) (simp add: js_def)
  have l3: "length (cleanLabel (trim (grp ?hey 2))) < 100"
    by (simp only: c2) (simp add: js_def)
  have m3: "match (js ''no'') optionRe = None"
    by (simp add: js_def regex_defs class_defs)
  note t1 = parseOptionsFromText_spec [where line = "js ''1. Hi''" and m = ?hi and options = "[]"]
  note t2 = parseOptionsFromText_spec [where line = "js ''1. Hey''" and m = ?hey and options = "[]"]
  note t3 = parseOptionsFromText_spec [where line = "js ''no''" and options = "[]"]
  note a = t1 [THEN conjunct2, THEN conjunct2, THEN conjunct2, THEN conjunct2, THEN conjunct2, THEN conjunct2,
      THEN conjunct1, THEN mp,
      OF conjI [OF m1 disjI1 [OF l1]]]
  note b = t2 [THEN conjunct2, THEN conjunct2, THEN conjunct2, THEN conjunct2, THEN conjunct2, THEN conjunct2,
      THEN conjunct2, THEN conjunct1, THEN mp, OF conjI [OF m2 conjI [OF l2 l3]]]
  note c = t3 [THEN conjunct2, THEN conjunct2, THEN conjunct2, THEN conjunct2, THEN conjunct2, THEN conjunct2,
      THEN conjunct2, THEN conjunct2, THEN conjunct1, THEN mp, OF m3]
  have b': "parseOptions_line [] (js ''1. Hey'') =
     [\<lparr>opt_id = js ''opt-1'', label = js ''Hey'', opt_value = js ''1. Hey''\<rparr>]"
    using b by (simp only: c2 g2) (simp add: js_def)
  show ?thesis
    by (rule conjI [OF m1 conjI [OF l1 conjI [OF a conjI [OF m2 conjI [OF l2 conjI [OF l3
          conjI [OF b' conjI [OF m3 c]]]]]]]])
qed

text \<open>
  Claim C4. The line \<^verbatim>\<open>1. Do you rent your home?\<close> is matched by the option pattern and
  by the question pattern, and it comes out of both extractors: as an option of
  \<open>parseOptionsFromText\<close> and as a question of \<open>parseMultiQuestions\<close>. On the two-line
  text each extractor returns both lines; neither takes the other's result into account.
\<close>

theorem double_match:
  "match (js ''1. Do you rent your home?'') optionRe =
     Some \<lparr>index = 0, endIndex = 25,
       groups = [(2, js ''Do you rent your home?''), (1, js ''1'')]\<rparr> \<and>
   match (js ''1. Do you rent your home?'') questionRe =
     Some \<lparr>index = 0, endIndex = 25,
       groups = [(2, js ''Do you rent your home?''), (1, js ''1'')]\<rparr> \<and>
   parseOptionsFromText (js ''1. Do you rent your home?'') =
     [\<lparr>opt_id = js ''opt-1'', label = js ''Do you rent your home?'',
       opt_value = js ''1. Do you rent your home?''\<rparr>] \<and>
   parseMultiQuestions (js ''1. Do you rent your home?'') =
     [\<lparr>questionId = js ''q-1'', questionText = js ''Do you rent your home?'', answer = None\<rparr>] \<and>
   parseOptionsFromText (js ''1. Do you rent your home?\<newline>2. Do you own a vehicle?'') =
     [\<lparr>opt_id = js ''opt-1'', label = js ''Do you rent your home?'',
       opt_value = js ''1. Do you rent your home?''\<rparr>,
      \<lparr>opt_id = js ''opt-2'', label = js ''Do you own a vehicle?'',
       opt_value = js ''2. Do you own a vehicle?''\<rparr>] \<and>
   parseMultiQuestions (js ''1. Do you rent your home?\<newline>2. Do you own a vehicle?'') =
     [\<lparr>questionId = js ''q-1'', questionText = js ''Do you rent your home?'', answer = None\<rparr>,
      \<lparr>questionId = js ''q-2'', questionText = js ''Do you own a vehicle?'', answer = None\<rparr>]"
proof -
  have a: "match (js ''1. Do you rent your home?'') optionRe =
     Some \<lparr>index = 0, endIndex = 25,
       groups = [(2, js ''Do you rent your home?''), (1, js ''1'')]\<rparr>"
    by (simp add: js_def regex_defs class_defs)
  have b: "match (js ''1. Do you rent your home?'') questionRe =
     Some \<lparr>index = 0, endIndex = 25,
       groups = [(2, js ''Do you rent your home?''), (1, js ''1'')]\<rparr>"
    by (simp add: js_def regex_defs class_defs)
  have c: "parseOptionsFromText (js ''1. Do you rent your home?'') =
     [\<lparr>opt_id = js ''opt-1'', label = js ''Do you rent your home?'',
       opt_value = js ''1. Do you rent your home?''\<rparr>]"
    by (simp add: extract_defs regex_defs class_defs)
  have d: "parseMultiQuestions (js ''1. Do you rent your home?'') =
     [\<lparr>questionId = js ''q-1'', questionText = js ''Do you rent your home?'', answer = None\<rparr>]"
    by (simp add: extract_defs regex_defs class_defs)
  have e: "parseOptionsFromText (js ''1. Do you rent your home?\<newline>2. Do you own a vehicle?'') =
     [\<lparr>opt_id = js ''opt-1'', label = js ''Do you rent your home?'',
       opt_value = js ''1. Do you rent your home?''\<rparr>,
      \<lparr>opt_id = js ''opt-2'', label = js ''Do you own a vehicle?'',
       opt_value = js ''2. Do you own a vehicle?''\<rparr>]"
    by (simp add: extract_defs regex_defs class_defs)
  have f: "parseMultiQuestions (js ''1. Do you rent your home?\<newline>2. Do you own a vehicle?'') =
     [\<lparr>questionId = js ''q-1'', questionText = js ''Do you rent your home?'', answer = None\<rparr>,
      \<lparr>questionId = js ''q-2'', questionText = js ''Do you own a vehicle?'', answer = None\<rparr>]"
    by (simp add: extract_defs regex_defs class_defs)
  show ?thesis
    by (rule conjI [OF a conjI [OF b conjI [OF c conjI [OF d conjI [OF e f]]]]])
qed

section \<open>Quick replies\<close>

text \<open>
  Claim C5. \<open>getQuickReplies\<close> returns the empty list when \<open>isProcessing\<close> is true,
  when there is no message, and when the last message is not an assistant message or is
  still streaming. It never returns more than 4 suggestions, and what it returns is
  always taken, in this order, from Yes, No, Tell me more and the help suggestion. When
  the lower-cased text of a finalized last assistant message contains a question mark,
  one of the yes/no phrases and one of form, application or grant, the result is exactly
  these four in this order. The result depends on the messages only through the last
  one. (The function is stated for any lower-casing function \<open>lc\<close>.)
\<close>

theorem getQuickReplies_spec:
  "getQuickReplies lc msgs True = [] \<and>
   getQuickReplies lc [] p = [] \<and>
   (msgs \<noteq> [] \<and> (role (last msgs) \<noteq> Model \<or> isStreaming (last msgs) = Some True) \<longrightarrow>
      getQuickReplies lc msgs p = []) \<and>
   length (getQuickReplies lc msgs p) \<le> 4 \<and>
   subseq (getQuickReplies lc msgs p)
     [\<lparr>opt_id = js ''yes'', label = js ''Yes'', opt_value = js ''Yes''\<rparr>,
      \<lparr>opt_id = js ''no'', label = js ''No'', opt_value = js ''No''\<rparr>,
      \<lparr>opt_id = js ''more'', label = js ''Tell me more'',
        opt_value = js ''Can you tell me more about that?''\<rparr>,
      \<lparr>opt_id = js ''help'', label = js ''I need help understanding'',
        opt_value = js ''I need help understanding this. Can you explain it in simpler terms?''\<rparr>] \<and>
   (msgs \<noteq> [] \<and> \<not> p \<and> role (last msgs) = Model \<and> isStreaming (last msgs) \<noteq> Some True \<and>
    includes_str (lc (msg_text (last msgs))) (js ''?'') \<and>
    (includes_str (lc (msg_text (last msgs))) (js ''do you'') \<or>
     includes_str (lc (msg_text (last msgs))) (js ''does it'') \<or>
     includes_str (lc (msg_text (last msgs))) (js ''is it'') \<or>
     includes_str (lc (msg_text (last msgs))) (js ''are you'') \<or>
     includes_str (lc (msg_text (last msgs))) (js ''can you'') \<or>
     includes_str (lc (msg_text (last msgs))) (js ''would you'') \<or>
     includes_str (lc (msg_text (last msgs))) (js ''have you'')) \<and>
    (includes_str (lc (msg_text (last msgs))) (js ''form'') \<or>
     includes_str (lc (msg_text (last msgs))) (js ''application'') \<or>
     includes_str (lc (msg_text (last msgs))) (js ''grant'')) \<longrightarrow>
      getQuickReplies lc msgs p =
        [\<lparr>opt_id = js ''yes'', label = js ''Yes'', opt_value = js ''Yes''\<rparr>,
         \<lparr>opt_id = js ''no'', label = js ''No'', opt_value = js ''No''\<rparr>,
         \<lparr>opt_id = js ''more'', label = js ''Tell me more'',
           opt_value = js ''Can you tell me more about that?''\<rparr>,
         \<lparr>opt_id = js ''help'', label = js ''I need help understanding'',
           opt_value = js ''I need help understanding this. Can you explain it in simpler terms?''\<rparr>]) \<and>
   (msgs \<noteq> [] \<and> msgs' \<noteq> [] \<and> last msgs = last msgs' \<longrightarrow>
      getQuickReplies lc msgs p = getQuickReplies lc msgs' p)"
proof -
  have A: "getQuickReplies lc msgs True = []"
    by (simp add: getQuickReplies_def)
  have B: "getQuickReplies lc [] p = []"
    by (simp add: getQuickReplies_def)
  have C: "msgs \<noteq> [] \<and> (role (last msgs) \<noteq> Model \<or> isStreaming (last msgs) = Some True) \<longrightarrow>
      getQuickReplies lc msgs p = []"
    by (auto simp: getQuickReplies_def truthy_def Let_def)
  have D: "length (getQuickReplies lc msgs p) \<le> 4"
    by (simp add: getQuickReplies_def Let_def)
  have E: "subseq (getQuickReplies lc msgs p)
     [\<lparr>opt_id = js ''yes'', label = js ''Yes'', opt_value = js ''Yes''\<rparr>,
      \<lparr>opt_id = js ''no'', label = js ''No'', opt_value = js ''No''\<rparr>,
      \<lparr>opt_id = js ''more'', label = js ''Tell me more'',
        opt_value = js ''Can you tell me more about that?''\<rparr>,
      \<lparr>opt_id = js ''help'', label = js ''I need help understanding'',
        opt_value = js ''I need help understanding this. Can you explain it in simpler terms?''\<rparr>]"
    by (simp add: getQuickReplies_def Let_def js_def)
  have F: "msgs \<noteq> [] \<and> \<not> p \<and> role (last msgs) = Model \<and> isStreaming (last msgs) \<noteq> Some True \<and>
    includes_str (lc (msg_text (last msgs))) (js ''?'') \<and>
    (includes_str (lc (msg_text (last msgs))) (js ''do you'') \<or>
     includes_str (lc (msg_text (last msgs))) (js ''does it'') \<or>
     includes_str (lc (msg_text (last msgs))) (js ''is it'') \<or>
     includes_str (lc (msg_text (last msgs))) (js ''are you'') \<or>
     includes_str (lc (msg_text (last msgs))) (js ''can you'') \<or>
     includes_str (lc (msg_text (last msgs))) (js ''would you'') \<or>
     includes_str (lc (msg_text (last msgs))) (js ''have you'')) \<and>
    (includes_str (lc (msg_text (last msgs))) (js ''form'') \<or>
     includes_str (lc (msg_text (last msgs))) (js ''application'') \<or>
     includes_str (lc (msg_text (last msgs))) (js ''grant'')) \<longrightarrow>
      getQuickReplies lc msgs p =
        [\<lparr>opt_id = js ''yes'', label = js ''Yes'', opt_value = js ''Yes''\<rparr>,
         \<lparr>opt_id = js ''no'', label = js ''No'', opt_value = js ''No''\<rparr>,
         \<lparr>opt_id = js ''more'', label = js ''Tell me more'',
           opt_value = js ''Can you tell me more about that?''\<rparr>,
         \<lparr>opt_id = js ''help'', label = js ''I need help understanding'',
           opt_value = js ''I need help understanding this. Can you explain it in simpler terms?''\<rparr>]"
    by (simp add: getQuickReplies_def truthy_def Let_def)
  have G: "msgs \<noteq> [] \<and> msgs' \<noteq> [] \<and> last msgs = last msgs' \<longrightarrow>
      getQuickReplies lc msgs p = getQuickReplies lc msgs' p"
    by (simp add: getQuickReplies_def Let_def)
  show ?thesis by (intro conjI A B C D E F G)
qed

theorem getQuickReplies_spec_witness:
  "getQuickReplies toLowerCaseASCII [exampleUserMsg, exampleQuestion] False =
     [\<lparr>opt_id = js ''yes'', label = js ''Yes'', opt_value = js ''Yes''\<rparr>,
      \<lparr>opt_id = js ''no'', label = js ''No'', opt_value = js ''No''\<rparr>,
      \<lparr>opt_id = js ''more'', label = js ''Tell me more'',
        opt_value = js ''Can you tell me more about that?''\<rparr>,
      \<lparr>opt_id = js ''help'', label = js ''I need help understanding'',
        opt_value = js ''I need help understanding this. Can you explain it in simpler terms?''\<rparr>] \<and>
   getQuickReplies toLowerCaseASCII [exampleUserMsg] False = [] \<and>
   getQuickReplies toLowerCaseASCII [exampleUserMsg, examplePlaceholder] False = [] \<and>
   getQuickReplies toLowerCaseASCII [exampleQuestion] False =
     getQuickReplies toLowerCaseASCII [exampleUserMsg, exampleQuestion] False"
proof -
  let ?msgs = "[exampleUserMsg, exampleQuestion]"
  have low: "toLowerCaseASCII (msg_text (last ?msgs)) = js ''do you need help with a grant form?''"
    by (simp add: toLowerCaseASCII_def exampleQuestion_def js_def)
  have h: "?msgs \<noteq> [] \<and> \<not> False \<and> role (last ?msgs) = Model \<and>
    isStreaming (last ?msgs) \<noteq> Some True \<and>
    includes_str (toLowerCaseASCII (msg_text (last ?msgs))) (js ''?'') \<and>
    (includes_str (toLowerCaseASCII (msg_text (last ?msgs))) (js ''do you'') \<or>
     includes_str (toLowerCaseASCII (msg_text (last ?msgs))) (js ''does it'') \<or>
     includes_str (toLowerCaseASCII (msg_text (last ?msgs))) (js ''is it'') \<or>
     includes_str (toLowerCaseASCII (msg_text (last ?msgs))) (js ''are you'') \<or>
     includes_str (toLowerCaseASCII (msg_text (last ?msgs))) (js ''can you'') \<or>
     includes_str (toLowerCaseASCII (msg_text (last ?msgs))) (js ''would you'') \<or>
     includes_str (toLowerCaseASCII (msg_text (last ?msgs))) (js ''have you'')) \<and>
    (includes_str (toLowerCaseASCII (msg_text (last ?msgs))) (js ''form'') \<or>
     includes_str (toLowerCaseASCII (msg_text (last ?msgs))) (js ''application'') \<or>
     includes_str (toLowerCaseASCII (msg_text (last ?msgs))) (js ''grant''))"
    unfolding low by (simp add: exampleQuestion_def js_def)
  have u: "[exampleUserMsg] \<noteq> [] \<and>
    (role (last [exampleUserMsg]) \<noteq> Model \<or> isStreaming (last [exampleUserMsg]) = Some True)"
    by (simp add: exampleUserMsg_def)
  have s: "[exampleUserMsg, examplePlaceholder] \<noteq> [] \<and>
    (role (last [exampleUserMsg, examplePlaceholder]) \<noteq> Model \<or>
     isStreaming (last [exampleUserMsg, examplePlaceholder]) = Some True)"
    by (simp add: examplePlaceholder_def)
  have l: "[exampleQuestion] \<noteq> [] \<and> ?msgs \<noteq> [] \<and> last [exampleQuestion] = last ?msgs"
    by simp
  note a = getQuickReplies_spec [where lc = toLowerCaseASCII and msgs = ?msgs and p = False,
      THEN conjunct2, THEN conjunct2, THEN conjunct2, THEN conjunct2, THEN conjunct2,
      THEN conjunct1, THEN mp, OF h]
  note b = getQuickReplies_spec [where lc = toLowerCaseASCII and msgs = "[exampleUserMsg]"
      and p = False, THEN conjunct2, THEN conjunct2, THEN conjunct1, THEN mp, OF u]
  note c = getQuickReplies_spec [where lc = toLowerCaseASCII
      and msgs = "[exampleUserMsg, examplePlaceholder]" and p = False,
      THEN conjunct2, THEN conjunct2, THEN conjunct1, THEN mp, OF s]
  note d = getQuickReplies_spec [where lc = toLowerCaseASCII and msgs = "[exampleQuestion]"
      and msgs' = ?msgs and p = False,
      THEN conjunct2, THEN conjunct2, THEN conjunct2, THEN conjunct2, THEN conjunct2,
      THEN conjunct2, THEN mp, OF l]
  show ?thesis by (rule conjI [OF a conjI [OF b conjI [OF c d]]])
qed

section \<open>The submission guard\<close>

text \<open>
  Claim C6, where the code departs from it. The claim: a submission is accepted only if
  \<open>isProcessing\<close> is false and 1000 ms have passed since the last accepted submission,
  so that of two submissions within 1000 ms only the first appends messages. That holds
  for a handler that runs in the latest render (\<open>handleSend_guard\<close>), and
  \<open>handleSendWithText\<close> checks the two values of its own render
  (\<open>handleSendWithText_guard\<close>). But the timer of \<open>handleQuickReplyClick\<close> calls
  \<open>handleSendWithText\<close> 50 ms after the click, with the values of the render of the
  click. In \<open>exampleReady\<close> the quick reply \<^verbatim>\<open>Yes\<close> is offered
  (\<open>yesOption_offered\<close>); it is clicked twice before the first timer fires. The call
  of the first timer, at 20050, is accepted. The call of the second, at 20060, is
  accepted as well, although \<open>isProcessing\<close> is true by then and only 10 ms have passed
  since the accepted submission: a second user message and a second placeholder are
  appended and a second request is sent.
\<close>

theorem double_send:
  "doubleClick exampleReady yesOption 20050 20060 =
     ((exampleFirstSent,
       Some \<lparr>aiMsgId = js ''ai-1-20050'', accumulatedText = [], accumulatedGrounding = []\<rparr>),
      (exampleSecondSent,
       Some \<lparr>aiMsgId = js ''ai-2-20060'', accumulatedText = [], accumulatedGrounding = []\<rparr>)) \<and>
   isProcessing exampleFirstSent \<and>
   20060 - lastMessageTime exampleFirstSent < 1000 \<and>
   length (messages exampleSecondSent) = length (messages exampleFirstSent) + 2 \<and>
   requests exampleSecondSent = [js ''hello'', js ''Yes'', js ''Yes'']"
proof -
  have b: "doubleClick exampleReady yesOption 20050 20060 =
     ((exampleFirstSent,
       Some \<lparr>aiMsgId = js ''ai-1-20050'', accumulatedText = [], accumulatedGrounding = []\<rparr>),
      (exampleSecondSent,
       Some \<lparr>aiMsgId = js ''ai-2-20060'', accumulatedText = [], accumulatedGrounding = []\<rparr>))"
    by (simp add: doubleClick_def click1 click2 firePending_def fire1 fire2)
  have c: "isProcessing exampleFirstSent \<and>
   20060 - lastMessageTime exampleFirstSent < 1000 \<and>
   length (messages exampleSecondSent) = length (messages exampleFirstSent) + 2 \<and>
   requests exampleSecondSent = [js ''hello'', js ''Yes'', js ''Yes'']"
    by (simp add: exampleFirstSent_def exampleSecondSent_def)
  show ?thesis by (rule conjI [OF b c])
qed

section \<open>Failure of the stream\<close>

text \<open>
  Claim C7. An exchange is started on a mounted component, fragments are delivered with
  no teardown in between, and then the stream throws (with any message or none). Then
  the placeholder, the last message, has \<^verbatim>\<open>hasError\<close> true and \<^verbatim>\<open>isStreaming\<close> false. Its
  text is the concatenation of the fragments if that is not empty, and the fallback
  \<^verbatim>\<open>Sorry, I encountered an error. Please try again.\<close> otherwise; it is never empty. The
  citations are as they were accumulated, the error banner holds a message that is not
  empty, and \<open>isProcessing\<close> is false.
\<close>

theorem stream_failure:
  "(handleSend s now = (s1, Some x) \<or> handleSendWithText r s t now = (s1, Some x)) \<and>
   isMounted s \<longrightarrow>
     hasError (last (messages (runExchange s1 x (fragment_events frags) (StreamThrows e)))) =
       Some True \<and>
     isStreaming (last (messages (runExchange s1 x (fragment_events frags) (StreamThrows e)))) =
       Some False \<and>
     msg_text (last (messages (runExchange s1 x (fragment_events frags) (StreamThrows e)))) =
       (if concat (map fst frags) = []
        then js ''Sorry, I encountered an error. Please try again.''
        else concat (map fst frags)) \<and>
     msg_text (last (messages (runExchange s1 x (fragment_events frags) (StreamThrows e)))) \<noteq> [] \<and>
     groundingChunks
       (last (messages (runExchange s1 x (fragment_events frags) (StreamThrows e)))) =
       (if frags = [] then None else Some (concat (map (batch \<circ> snd) frags))) \<and>
     error (runExchange s1 x (fragment_events frags) (StreamThrows e)) \<noteq> None \<and>
     error (runExchange s1 x (fragment_events frags) (StreamThrows e)) \<noteq> Some [] \<and>
     \<not> isProcessing (runExchange s1 x (fragment_events frags) (StreamThrows e)) \<and>
     length (messages (runExchange s1 x (fragment_events frags) (StreamThrows e))) =
       length (messages s) + 2"
proof
  assume a: "(handleSend s now = (s1, Some x) \<or> handleSendWithText r s t now = (s1, Some x)) \<and>
    isMounted s"
  then obtain r' t' where start: "handleSendWithText r' s t' now = (s1, Some x)"
    using started by blast
  from a have m: "isMounted s" by simp
  obtain sd xd where run: "foldl deliver (s1, x) (fragment_events frags) = (sd, xd)"
    by (cases "foldl deliver (s1, x) (fragment_events frags)")
  note d = delivered_last [OF start m run]
  from d have ne: "messages sd \<noteq> []" by auto
  let ?F = "runExchange s1 x (fragment_events frags) (StreamThrows e)"
  obtain em where em: "snd (sendMessageStream (fragment_events frags) (StreamThrows e) (s1, x)) =
      Some em"
    by (simp add: sendMessageStream_def)
  let ?errorMessage = "case em of
      None \<Rightarrow> js ''I had trouble connecting. Please try saying that again.''
    | Some m \<Rightarrow> if m = [] then js ''I had trouble connecting. Please try saying that again.''
               else m"
  have fin: "?F =
      sd\<lparr>error := Some ?errorMessage,
         messages :=
           map (\<lambda>msg. if msg_id msg = aiMsgId x
                      then msg\<lparr>isStreaming := Some False, hasError := Some True,
                               msg_text :=
                                 (if msg_text msg = []
                                  then js ''Sorry, I encountered an error. Please try again.''
                                  else msg_text msg)\<rparr>
                      else msg) (messages sd),
         isProcessing := False\<rparr>"
    using d by (simp add: runExchange_unfold [OF run] em afterStream_def finallyBlock_def Let_def)
  have lastfin: "last (messages ?F) =
       \<lparr>msg_id = aiMsgId x, role = Model,
        msg_text =
          (if concat (map fst frags) = []
           then js ''Sorry, I encountered an error. Please try again.''
           else concat (map fst frags)),
        groundingChunks =
          (if frags = [] then None else Some (concat (map (batch \<circ> snd) frags))),
        isStreaming = Some False, hasError = Some True\<rparr>"
    using d ne by (simp add: fin last_map)
  have fallback: "js ''Sorry, I encountered an error. Please try again.'' \<noteq> []"
    by (simp add: js_def)
  have err: "error ?F = Some ?errorMessage" by (simp add: fin)
  have errne: "?errorMessage \<noteq> []" by (rule thrown_message_nonempty [OF em])
  show "hasError (last (messages ?F)) = Some True \<and>
     isStreaming (last (messages ?F)) = Some False \<and>
     msg_text (last (messages ?F)) =
       (if concat (map fst frags) = []
        then js ''Sorry, I encountered an error. Please try again.''
        else concat (map fst frags)) \<and>
     msg_text (last (messages ?F)) \<noteq> [] \<and>
     groundingChunks (last (messages ?F)) =
       (if frags = [] then None else Some (concat (map (batch \<circ> snd) frags))) \<and>
     error ?F \<noteq> None \<and> error ?F \<noteq> Some [] \<and> \<not> isProcessing ?F \<and>
     length (messages ?F) = length (messages s) + 2"
    unfolding lastfin err using d errne fallback by (simp add: fin)
qed

theorem stream_failure_witness:
  "handleSend exampleStart 5000 = (exampleSent, Some exampleExchange) \<and>
   isMounted exampleStart \<and>
   runExchange exampleSent exampleExchange (fragment_events []) (StreamThrows None) =
     exampleFailed \<and>
   last (messages exampleFailed) = exampleErrorMsg \<and>
   msg_text (last (messages (runExchange exampleSent exampleExchange (fragment_events [])
       (StreamThrows None)))) = js ''Sorry, I encountered an error. Please try again.'' \<and>
   msg_text (last (messages (runExchange exampleSent exampleExchange
       (fragment_events exampleFragments) (StreamThrows (Some (js ''HTTP 429''))))))
     = js ''Hi there!'' \<and>
   hasError (last (messages (runExchange exampleSent exampleExchange
       (fragment_events exampleFragments) (StreamThrows (Some (js ''HTTP 429''))))))
     = Some True \<and>
   isStreaming (last (messages (runExchange exampleSent exampleExchange
       (fragment_events exampleFragments) (StreamThrows (Some (js ''HTTP 429''))))))
     = Some False"
proof -
  have start: "handleSend exampleStart 5000 = (exampleSent, Some exampleExchange)"
    by (rule handleSend_example)
  have m: "isMounted exampleStart" by (simp add: exampleStart_def initialState_def)
  note t1 = stream_failure [where s = exampleStart and now = 5000 and ?s1.0 = exampleSent
      and x = exampleExchange and frags = exampleFragments and e = "Some (js ''HTTP 429'')",
      THEN mp, OF conjI [OF disjI1 [OF start] m]]
  have a: "runExchange exampleSent exampleExchange (fragment_events []) (StreamThrows None) =
     exampleFailed"
    by (simp add: runExchange_def sendMessageStream_def fragment_events_def afterStream_def
        finallyBlock_def example_defs js_def)
  have a': "last (messages exampleFailed) = exampleErrorMsg"
    by (simp add: exampleFailed_def)
  note t0 = stream_failure [where s = exampleStart and now = 5000 and ?s1.0 = exampleSent
      and x = exampleExchange and frags = "[]" and e = None,
      THEN mp, OF conjI [OF disjI1 [OF start] m]]
  have z: "msg_text (last (messages (runExchange exampleSent exampleExchange (fragment_events [])
       (StreamThrows None)))) = js ''Sorry, I encountered an error. Please try again.''"
    using t0 [THEN conjunct2, THEN conjunct2, THEN conjunct1] by simp
  have b: "msg_text (last (messages (runExchange exampleSent exampleExchange
       (fragment_events exampleFragments) (StreamThrows (Some (js ''HTTP 429''))))))
     = js ''Hi there!''"
    using t1 [THEN conjunct2, THEN conjunct2, THEN conjunct1]
    by (simp add: exampleFragments_def js_def)
  note c = t1 [THEN conjunct1]
  note d = t1 [THEN conjunct2, THEN conjunct1]
  show ?thesis
    by (rule conjI [OF start conjI [OF m conjI [OF a conjI [OF a' conjI [OF z conjI [OF b
          conjI [OF c d]]]]]]])
qed

section \<open>Retry\<close>

text \<open>
  Claim C8. Let the message at index \<open>k\<close> be a user message, the first of that id
  (\<open>handleRetry\<close> looks the message up by its id). Retrying it cuts the sequence down to
  its first \<open>k\<close> messages, puts that message's text into the input and clears the
  error banner; nothing else changes: no request goes to the remote service
  (\<open>requests\<close>), no message is appended, and \<open>isProcessing\<close> is as before.
\<close>

theorem handleRetry_truncates:
  "k < length (messages s) \<Longrightarrow> role (messages s ! k) = User \<Longrightarrow>
   (\<forall>j < k. msg_id (messages s ! j) \<noteq> msg_id (messages s ! k)) \<Longrightarrow>
   handleRetry s (msg_id (messages s ! k)) =
     s\<lparr>messages := take k (messages s), inputText := msg_text (messages s ! k), error := None\<rparr> \<and>
   messages (handleRetry s (msg_id (messages s ! k))) = take k (messages s) \<and>
   length (messages (handleRetry s (msg_id (messages s ! k)))) = k \<and>
   inputText (handleRetry s (msg_id (messages s ! k))) = msg_text (messages s ! k) \<and>
   requests (handleRetry s (msg_id (messages s ! k))) = requests s \<and>
   isProcessing (handleRetry s (msg_id (messages s ! k))) = isProcessing s"
proof -
  assume k: "k < length (messages s)" and u: "role (messages s ! k) = User"
    and first: "\<forall>j < k. msg_id (messages s ! j) \<noteq> msg_id (messages s ! k)"
  have "findIndex (\<lambda>m. msg_id m = msg_id (messages s ! k)) (messages s) = Some k"
    using k first by (intro findIndex_first) auto
  then show ?thesis using k u by (simp add: handleRetry_def)
qed

theorem handleRetry_truncates_witness:
  "2 < length (messages exampleTwo) \<and> role (messages exampleTwo ! 2) = User \<and>
   msg_id (messages exampleTwo ! 2) = js ''user-1-9000'' \<and>
   handleRetry exampleTwo (js ''user-1-9000'') =
     exampleTwo\<lparr>messages := [exampleUserMsg, exampleAnswer], inputText := js ''again'',
       error := None\<rparr> \<and>
   length (messages (handleRetry exampleTwo (js ''user-1-9000''))) = 2 \<and>
   requests (handleRetry exampleTwo (js ''user-1-9000'')) = [js ''hello'', js ''again'']"
proof -
  have k: "2 < length (messages exampleTwo)" by (simp add: exampleTwo_def)
  have u: "role (messages exampleTwo ! 2) = User" by (simp add: exampleTwo_def exampleUserMsg2_def)
  have i: "msg_id (messages exampleTwo ! 2) = js ''user-1-9000''"
    by (simp add: exampleTwo_def exampleUserMsg2_def)
  have first: "\<forall>j < 2. msg_id (messages exampleTwo ! j) \<noteq> msg_id (messages exampleTwo ! 2)"
    by (simp add: example_defs js_def less_Suc_eq numeral_2_eq_2)
  from handleRetry_truncates [OF k u first] k u i show ?thesis
    by (simp add: exampleTwo_def exampleUserMsg2_def)
qed

section \<open>The ways out of an exchange\<close>

text \<open>
  Claim C9, amended. An exchange is started on a mounted component; then any events and
  any end of the stream. If the component is not torn down before the stream ends, then
  after normal completion and after a failure alike \<open>isProcessing\<close> is false and the
  placeholder's \<^verbatim>\<open>isStreaming\<close> is false. If it is torn down before the stream ends,
  the handler changes nothing from then on (the guards on \<^verbatim>\<open>isMountedRef.current\<close> in
  lines 358, 372, 381 and 398): the final state is the state at the teardown, whatever
  arrives later, so \<open>isProcessing\<close> stays true and the placeholder's \<^verbatim>\<open>isStreaming\<close>
  stays true.
\<close>

theorem exit_paths:
  "(handleSend s now = (s1, Some x) \<or> handleSendWithText r s t now = (s1, Some x)) \<and>
   isMounted s \<longrightarrow>
     (Unmount \<notin> set events \<longrightarrow>
        \<not> isProcessing (runExchange s1 x events result) \<and>
        isStreaming (last (messages (runExchange s1 x events result))) = Some False) \<and>
     (Unmount \<in> set events \<longrightarrow>
        isProcessing (runExchange s1 x events result) \<and>
        isStreaming (last (messages (runExchange s1 x events result))) = Some True \<and>
        runExchange s1 x events result = fst (foldl deliver (s1, x) events)) \<and>
     (events = pre @ Unmount # post \<longrightarrow>
        runExchange s1 x events result =
          (fst (foldl deliver (s1, x) pre))\<lparr>isMounted := False\<rparr>)"
proof
  assume a: "(handleSend s now = (s1, Some x) \<or> handleSendWithText r s t now = (s1, Some x)) \<and>
    isMounted s"
  then obtain r' t' where start: "handleSendWithText r' s t' now = (s1, Some x)"
    using started by blast
  note acc = handleSendWithText_accepted [OF start]
  from a acc have m1: "isMounted s1" by simp
  obtain sd xd where run: "foldl deliver (s1, x) events = (sd, xd)"
    by (cases "foldl deliver (s1, x) events")
  note fr = foldl_deliver_frame [OF run]
  from fr acc have ne: "messages sd \<noteq> []" by auto
  from fr acc have p: "isProcessing sd" by simp
  have lastid: "msg_id (last (messages sd)) = aiMsgId xd"
  proof -
    have "msg_id (last (messages sd)) = last (map msg_id (messages sd))"
      using ne by (simp add: last_map)
    with fr acc show ?thesis by simp
  qed
  have laststr: "isStreaming (last (messages sd)) = Some True"
  proof -
    have "isStreaming (last (messages sd)) = last (map isStreaming (messages sd))"
      using ne by (simp add: last_map)
    with fr acc show ?thesis by simp
  qed
  have mounted: "\<not> isProcessing (runExchange s1 x events result) \<and>
        isStreaming (last (messages (runExchange s1 x events result))) = Some False"
    if "Unmount \<notin> set events"
  proof -
    from foldl_deliver_mounted [OF that, of s1 x] run m1 have md: "isMounted sd" by simp
    show ?thesis
      using md ne lastid
      by (cases "snd (sendMessageStream events result (s1, x))")
        (simp_all add: runExchange_unfold [OF run] afterStream_def finallyBlock_def Let_def
          last_map)
  qed
  have torn: "isProcessing (runExchange s1 x events result) \<and>
        isStreaming (last (messages (runExchange s1 x events result))) = Some True \<and>
        runExchange s1 x events result = fst (foldl deliver (s1, x) events)"
    if "Unmount \<in> set events"
  proof -
    from foldl_deliver_Unmount [OF that, of s1 x] run have md: "\<not> isMounted sd" by simp
    have "runExchange s1 x events result = sd"
      using md
      by (cases "snd (sendMessageStream events result (s1, x))")
        (simp_all add: runExchange_unfold [OF run] afterStream_def finallyBlock_def)
    with p laststr run show ?thesis by simp
  qed
  have cut: "runExchange s1 x events result =
          (fst (foldl deliver (s1, x) pre))\<lparr>isMounted := False\<rparr>"
    if ev: "events = pre @ Unmount # post"
  proof -
    obtain sp xp where pre: "foldl deliver (s1, x) pre = (sp, xp)"
      by (cases "foldl deliver (s1, x) pre")
    have "deliver (sp, xp) Unmount = (sp\<lparr>isMounted := False\<rparr>, xp)"
      by (simp add: deliver_def)
    then have "foldl deliver (s1, x) events = (sp\<lparr>isMounted := False\<rparr>, xp)"
      by (simp add: ev pre foldl_deliver_unmounted)
    moreover have "Unmount \<in> set events" by (simp add: ev)
    ultimately show ?thesis using torn pre by simp
  qed
  from mounted torn cut
  show "(Unmount \<notin> set events \<longrightarrow>
        \<not> isProcessing (runExchange s1 x events result) \<and>
        isStreaming (last (messages (runExchange s1 x events result))) = Some False) \<and>
     (Unmount \<in> set events \<longrightarrow>
        isProcessing (runExchange s1 x events result) \<and>
        isStreaming (last (messages (runExchange s1 x events result))) = Some True \<and>
        runExchange s1 x events result = fst (foldl deliver (s1, x) events)) \<and>
     (events = pre @ Unmount # post \<longrightarrow>
        runExchange s1 x events result =
          (fst (foldl deliver (s1, x) pre))\<lparr>isMounted := False\<rparr>)"
    by blast
qed

theorem exit_paths_witness:
  "handleSend exampleStart 5000 = (exampleSent, Some exampleExchange) \<and>
   isMounted exampleStart \<and>
   Unmount \<notin> set (fragment_events exampleFragments) \<and>
   \<not> isProcessing (runExchange exampleSent exampleExchange (fragment_events exampleFragments)
     (StreamThrows None)) \<and>
   isStreaming (last (messages (runExchange exampleSent exampleExchange
     (fragment_events exampleFragments) (StreamThrows None)))) = Some False \<and>
   Unmount \<in> set [Chunk (js ''Hi'') None, Unmount, Chunk (js ''!'') None] \<and>
   isProcessing (runExchange exampleSent exampleExchange
     [Chunk (js ''Hi'') None, Unmount, Chunk (js ''!'') None] StreamEnd) \<and>
   isStreaming (last (messages (runExchange exampleSent exampleExchange
     [Chunk (js ''Hi'') None, Unmount, Chunk (js ''!'') None] StreamEnd))) = Some True \<and>
   runExchange exampleSent exampleExchange
     [Chunk (js ''Hi'') None, Unmount, Chunk (js ''!'') None] StreamEnd =
     (fst (foldl deliver (exampleSent, exampleExchange) [Chunk (js ''Hi'') None]))
       \<lparr>isMounted := False\<rparr>"
proof -
  have start: "handleSend exampleStart 5000 = (exampleSent, Some exampleExchange)"
    by (rule handleSend_example)
  have m: "isMounted exampleStart" by (simp add: exampleStart_def initialState_def)
  have u: "Unmount \<notin> set (fragment_events exampleFragments)"
    by (simp add: fragment_events_def exampleFragments_def)
  have v: "Unmount \<in> set [Chunk (js ''Hi'') None, Unmount, Chunk (js ''!'') None]"
    by simp
  note t0 = exit_paths [where s = exampleStart and now = 5000 and ?s1.0 = exampleSent
      and x = exampleExchange and events = "fragment_events exampleFragments"
      and result = "StreamThrows None", THEN mp, OF conjI [OF disjI1 [OF start] m],
      THEN conjunct1, THEN mp, OF u]
  note t1 = exit_paths [where s = exampleStart and now = 5000 and ?s1.0 = exampleSent
      and x = exampleExchange
      and events = "[Chunk (js ''Hi'') None, Unmount, Chunk (js ''!'') None]"
      and result = StreamEnd, THEN mp, OF conjI [OF disjI1 [OF start] m],
      THEN conjunct2, THEN conjunct1, THEN mp, OF v]
  have w: "[Chunk (js ''Hi'') None, Unmount, Chunk (js ''!'') None] =
      [Chunk (js ''Hi'') None] @ Unmount # [Chunk (js ''!'') None]"
    by simp
  note t2 = exit_paths [where s = exampleStart and now = 5000 and ?s1.0 = exampleSent
      and x = exampleExchange
      and events = "[Chunk (js ''Hi'') None, Unmount, Chunk (js ''!'') None]"
      and pre = "[Chunk (js ''Hi'') None]" and post = "[Chunk (js ''!'') None]"
      and result = StreamEnd, THEN mp, OF conjI [OF disjI1 [OF start] m],
      THEN conjunct2, THEN conjunct2, THEN mp, OF w]
  show ?thesis
    by (rule conjI [OF start conjI [OF m conjI [OF u conjI [OF t0 [THEN conjunct1]
          conjI [OF t0 [THEN conjunct2] conjI [OF v conjI [OF t1 [THEN conjunct1]
          conjI [OF t1 [THEN conjunct2, THEN conjunct1] t2]]]]]]]])
qed

text \<open>
  Claim C9 as stated fails on the teardown path: the first exchange of \<open>exampleStart\<close>,
  torn down before the stream ends normally, or torn down after one fragment before the
  stream throws, ends with \<open>isProcessing\<close> true and the placeholder still streaming.
\<close>

theorem teardown_counterexample:
  "handleSend exampleStart 5000 = (exampleSent, Some exampleExchange) \<and>
   isMounted exampleStart \<and>
   isProcessing (runExchange exampleSent exampleExchange [Unmount] StreamEnd) \<and>
   isStreaming (last (messages (runExchange exampleSent exampleExchange [Unmount] StreamEnd))) =
     Some True \<and>
   isProcessing (runExchange exampleSent exampleExchange [Chunk (js ''Hi'') None, Unmount]
     (StreamThrows None)) \<and>
   isStreaming (last (messages (runExchange exampleSent exampleExchange
     [Chunk (js ''Hi'') None, Unmount] (StreamThrows None)))) = Some True"
proof -
  have start: "handleSend exampleStart 5000 = (exampleSent, Some exampleExchange)"
    by (rule handleSend_example)
  have m: "isMounted exampleStart" by (simp add: exampleStart_def initialState_def)
  have a: "runExchange exampleSent exampleExchange [Unmount] StreamEnd =
      exampleSent\<lparr>isMounted := False\<rparr>"
    by (simp add: runExchange_def sendMessageStream_def deliver_def afterStream_def
        finallyBlock_def)
  have b: "runExchange exampleSent exampleExchange [Chunk (js ''Hi'') None, Unmount]
      (StreamThrows None) =
      exampleSent\<lparr>messages := [exampleUserMsg, examplePlaceholder\<lparr>msg_text := js ''Hi'',
        groundingChunks := Some []\<rparr>], isMounted := False\<rparr>"
    by (simp add: runExchange_def sendMessageStream_def deliver_def onChunk_def afterStream_def
        finallyBlock_def example_defs js_def)
  show ?thesis
    unfolding a b using start m by (simp add: example_defs)
qed

section \<open>Retry without effect\<close>

text \<open>
  Claim C10. Retry with an id that no message has, or with the id of an assistant message
  (the first message of that id has the role \<open>Model\<close>), returns the state as it was:
  the messages, the input text and the error banner are unchanged.
\<close>

theorem handleRetry_noop:
  "((\<forall>m \<in> set (messages s). msg_id m \<noteq> mid) \<longrightarrow> handleRetry s mid = s) \<and>
   (k < length (messages s) \<and> role (messages s ! k) = Model \<and>
    (\<forall>j < k. msg_id (messages s ! j) \<noteq> msg_id (messages s ! k)) \<longrightarrow>
    handleRetry s (msg_id (messages s ! k)) = s)"
proof (intro conjI impI)
  assume "\<forall>m \<in> set (messages s). msg_id m \<noteq> mid"
  then have "findIndex (\<lambda>m. msg_id m = mid) (messages s) = None"
    by (intro findIndex_None) auto
  then show "handleRetry s mid = s" by (simp add: handleRetry_def)
next
  assume a: "k < length (messages s) \<and> role (messages s ! k) = Model \<and>
    (\<forall>j < k. msg_id (messages s ! j) \<noteq> msg_id (messages s ! k))"
  then have "findIndex (\<lambda>m. msg_id m = msg_id (messages s ! k)) (messages s) = Some k"
    by (intro findIndex_first) auto
  with a show "handleRetry s (msg_id (messages s ! k)) = s" by (simp add: handleRetry_def)
qed

theorem handleRetry_noop_witness:
  "handleRetry exampleTwo (js ''user-7-1'') = exampleTwo \<and>
   3 < length (messages exampleTwo) \<and> role (messages exampleTwo ! 3) = Model \<and>
   msg_id (messages exampleTwo ! 3) = js ''ai-1-9000'' \<and>
   handleRetry exampleTwo (js ''ai-1-9000'') = exampleTwo \<and>
   messages (handleRetry exampleTwo (js ''ai-1-9000'')) =
     [exampleUserMsg, exampleAnswer, exampleUserMsg2, exampleErrorMsg2] \<and>
   inputText (handleRetry exampleTwo (js ''ai-1-9000'')) = js ''draft'' \<and>
   error (handleRetry exampleTwo (js ''ai-1-9000'')) = Some (js ''network down'')"
proof -
  have absent: "\<forall>m \<in> set (messages exampleTwo). msg_id m \<noteq> js ''user-7-1''"
    by (simp add: example_defs js_def)
  have k: "3 < length (messages exampleTwo)" by (simp add: exampleTwo_def)
  have r: "role (messages exampleTwo ! 3) = Model"
    by (simp add: exampleTwo_def exampleErrorMsg2_def)
  have i: "msg_id (messages exampleTwo ! 3) = js ''ai-1-9000''"
    by (simp add: exampleTwo_def exampleErrorMsg2_def)
  have first: "\<forall>j < 3. msg_id (messages exampleTwo ! j) \<noteq> msg_id (messages exampleTwo ! 3)"
    by (simp add: example_defs js_def less_Suc_eq numeral_3_eq_3)
  note a = handleRetry_noop [of exampleTwo "js ''user-7-1''", THEN conjunct1, THEN mp, OF absent]
  note b = handleRetry_noop [where s = exampleTwo and k = 3, THEN conjunct2, THEN mp,
      OF conjI [OF k conjI [OF r first]]]
  from a b k r i show ?thesis by (simp add: exampleTwo_def)
qed

end
